theory Spec2Isabelle
  imports Main
begin

section \<open>Data model\<close>

text \<open>
  The stores of the application (Django tables) as lists of rows. Primary keys and
  amounts are Python integers. The declarations of \<open>recipes/models.py\<close> are not part of
  the sources at hand; the rows below carry exactly the columns that the serializers
  and views under \<open>api/\<close> and \<open>users/\<close> read and write. Messages of the source are
  Cyrillic; they are transliterated to ASCII here.
\<close>

type_synonym pk = int

record user =
  user_pk :: pk
  username :: string
  email :: string
  first_name :: string
  last_name :: string
  password :: string
  is_staff :: bool

record tag =
  tag_pk :: pk
  tag_name :: string
  tag_slug :: string

record ingredient =
  ingredient_pk :: pk
  ingredient_name :: string
  measurement_unit :: string

record recipe =
  recipe_pk :: pk
  author :: pk
  recipe_name :: string
  image :: string
  recipe_text :: string
  cooking_time :: int

record ingredient_in_recipe =
  iir_recipe :: pk
  iir_ingredient :: pk
  amount :: int

text \<open>
  \<open>Subscribe\<close> rows are pairs (user, author); \<open>Favourite\<close> and \<open>ShoppingCart\<close> rows are
  pairs (user, recipe); the rows of the many-to-many table behind \<open>Recipe.tags\<close> are
  pairs (recipe, tag). Whether the join model \<open>IngredientInRecipe\<close> declares the pair
  (recipe, ingredient) unique is not visible in the sources at hand, so the schema
  carries it as the flag \<open>IngredientInRecipe_unique\<close>.
\<close>

record db =
  User_objects :: "user list"
  Subscribe_objects :: "(pk \<times> pk) list"
  Tag_objects :: "tag list"
  Ingredient_objects :: "ingredient list"
  Recipe_objects :: "recipe list"
  Recipe_tags :: "(pk \<times> pk) list"
  IngredientInRecipe_objects :: "ingredient_in_recipe list"
  IngredientInRecipe_unique :: bool
  Favourite_objects :: "(pk \<times> pk) list"
  ShoppingCart_objects :: "(pk \<times> pk) list"

section \<open>Errors and responses\<close>

text \<open>
  Every exception the modelled code can raise is a value. A \<open>ValidationError\<close> carries
  either a list of messages (raised by a validator or a view) or the field-scoped
  dictionary a serializer collects.
\<close>

datatype detail = Msgs "string list" | Fields "(string \<times> detail) list"

datatype error =
    ValidationError detail
  | Http404
  | NotAuthenticated
  | PermissionDenied
  | ValueError
  | KeyError
  | DoesNotExist
  | MultipleObjectsReturned
  | IntegrityError

text \<open>
  The status the framework's exception handler answers with: the API exceptions have
  their own status, \<open>Http404\<close> becomes 404, and any other exception is not handled and
  ends in a server error.
\<close>

fun status_code :: "error \<Rightarrow> nat" where
  "status_code (ValidationError d) = 400"
| "status_code Http404 = 404"
| "status_code NotAuthenticated = 401"
| "status_code PermissionDenied = 403"
| "status_code ValueError = 500"
| "status_code KeyError = 500"
| "status_code DoesNotExist = 500"
| "status_code MultipleObjectsReturned = 500"
| "status_code IntegrityError = 500"

section \<open>Queries shared by serializers and views\<close>

definition get_object_or_404 :: "('a \<Rightarrow> pk) \<Rightarrow> 'a list \<Rightarrow> pk \<Rightarrow> error + 'a" where
  "get_object_or_404 key rows i =
     (case find (\<lambda>r. key r = i) rows of None \<Rightarrow> Inl Http404 | Some r \<Rightarrow> Inr r)"

section \<open>RecipeWriteSerializer: field validators\<close>

definition msg_need_ingredient :: string where
  "msg_need_ingredient = ''Nuzhen hotya by odin ingredient!''"

definition msg_ingredient_repeated :: string where
  "msg_ingredient_repeated = ''Ingridienty ne mogut povtoryatsya!''"

definition msg_amount_positive :: string where
  "msg_amount_positive = ''Kolichestvo ingredienta dolzhno byt bolshe 0!''"

definition msg_need_tag :: string where
  "msg_need_tag = ''Nuzhno vybrat hotya by odin teg!''"

definition msg_tags_unique :: string where
  "msg_tags_unique = ''Tegi dolzhny byt unikalnymi!''"

definition msg_time_positive :: string where
  "msg_time_positive = ''Vremya prigotovleniya dolzhno byt bolshe nulya.''"

definition msg_time_below_600 :: string where
  "msg_time_below_600 = ''Vremya prigotovleniya dolzhno byt menshe 600 minut.''"

text \<open>An element of the \<open>ingredients\<close> list of a request: \<open>{'id': ..., 'amount': ...}\<close>.\<close>

record ingredient_item =
  item_id :: pk
  item_amount :: int

text \<open>
  The loop of \<open>validate_ingredients\<close>; the third argument is \<open>ingredients_list\<close>.
  Membership of a model instance in a list compares primary keys.
\<close>

fun validate_ingredients_loop ::
  "db \<Rightarrow> ingredient_item list \<Rightarrow> ingredient list \<Rightarrow> error + unit" where
  "validate_ingredients_loop d [] ingredients_list = Inr ()"
| "validate_ingredients_loop d (item # items) ingredients_list =
     (case get_object_or_404 ingredient_pk (Ingredient_objects d) (item_id item) of
        Inl e \<Rightarrow> Inl e
      | Inr i \<Rightarrow>
          if ingredient_pk i \<in> set (map ingredient_pk ingredients_list)
          then Inl (ValidationError (Msgs [msg_ingredient_repeated]))
          else if item_amount item \<le> 0
          then Inl (ValidationError (Msgs [msg_amount_positive]))
          else validate_ingredients_loop d items (ingredients_list @ [i]))"

definition validate_ingredients ::
  "db \<Rightarrow> ingredient_item list \<Rightarrow> error + ingredient_item list" where
  "validate_ingredients d v =
     (if v = [] then Inl (ValidationError (Msgs [msg_need_ingredient]))
      else case validate_ingredients_loop d v [] of
             Inl e \<Rightarrow> Inl e
           | Inr u \<Rightarrow> Inr v)"

fun validate_tags_loop :: "pk list \<Rightarrow> pk list \<Rightarrow> error + unit" where
  "validate_tags_loop [] tags_list = Inr ()"
| "validate_tags_loop (t # ts) tags_list =
     (if t \<in> set tags_list then Inl (ValidationError (Msgs [msg_tags_unique]))
      else validate_tags_loop ts (tags_list @ [t]))"

definition validate_tags :: "pk list \<Rightarrow> error + pk list" where
  "validate_tags v =
     (if v = [] then Inl (ValidationError (Msgs [msg_need_tag]))
      else case validate_tags_loop v [] of
             Inl e \<Rightarrow> Inl e
           | Inr u \<Rightarrow> Inr v)"

definition validate_cooking_time :: "int \<Rightarrow> error + int" where
  "validate_cooking_time v =
     (if v \<le> 0 then Inl (ValidationError (Msgs [msg_time_positive]))
      else if v > 600 then Inl (ValidationError (Msgs [msg_time_below_600]))
      else Inr v)"

section \<open>RecipeWriteSerializer: validation of a request\<close>

text \<open>
  The data of a write request, and the validated data a serializer hands to \<open>create\<close>
  and \<open>update\<close>: a dictionary in the source, so every key may be absent (\<open>None\<close>).
\<close>

record recipe_data =
  d_tags :: "pk list option"
  d_ingredients :: "ingredient_item list option"
  d_name :: "string option"
  d_image :: "string option"
  d_text :: "string option"
  d_cooking_time :: "int option"

definition msg_required :: string where
  "msg_required = ''This field is required.''"

definition msg_does_not_exist :: string where
  "msg_does_not_exist = ''Invalid pk - object does not exist.''"

text \<open>
  What the framework's \<open>to_internal_value\<close> does with one field: an absent key is
  skipped on a partial update and an error otherwise; a \<open>ValidationError\<close> of the
  field or of its \<open>validate_<field>\<close> method is recorded under the field's name; any
  other exception propagates.
\<close>

datatype 'a field_result = Skipped | Failed detail | Valid 'a

definition run_field ::
  "bool \<Rightarrow> 'a option \<Rightarrow> ('a \<Rightarrow> error + 'b) \<Rightarrow> error + 'b field_result" where
  "run_field partial v validate =
     (case v of
        None \<Rightarrow> if partial then Inr Skipped else Inr (Failed (Msgs [msg_required]))
      | Some x \<Rightarrow>
          (case validate x of
             Inl (ValidationError m) \<Rightarrow> Inr (Failed m)
           | Inl e \<Rightarrow> Inl e
           | Inr y \<Rightarrow> Inr (Valid y)))"

definition errors_of :: "string \<Rightarrow> 'a field_result \<Rightarrow> (string \<times> detail) list" where
  "errors_of field r = (case r of Failed m \<Rightarrow> [(field, m)] | _ \<Rightarrow> [])"

definition value_of :: "'a field_result \<Rightarrow> 'a option" where
  "value_of r = (case r of Valid v \<Rightarrow> Some v | _ \<Rightarrow> None)"

text \<open>\<open>PrimaryKeyRelatedField(queryset=Tag.objects.all(), many=True)\<close>, then \<open>validate_tags\<close>.\<close>

definition tags_field :: "db \<Rightarrow> pk list \<Rightarrow> error + pk list" where
  "tags_field d v =
     (if \<exists>t \<in> set v. t \<notin> set (map tag_pk (Tag_objects d))
      then Inl (ValidationError (Msgs [msg_does_not_exist]))
      else validate_tags v)"

text \<open>
  The fields are visited in the order of \<open>Meta.fields\<close> (\<open>id\<close> and \<open>author\<close> are
  read-only). The errors of all fields are collected into one \<open>ValidationError\<close>; the
  \<open>Http404\<close> of \<open>validate_ingredients\<close> is not a \<open>ValidationError\<close> and leaves at once.
  The fields \<open>name\<close>, \<open>image\<close> and \<open>text\<close> come from the model, whose declaration is
  not among the sources; a value that is present is taken as it is.
\<close>

definition to_internal_value :: "bool \<Rightarrow> db \<Rightarrow> recipe_data \<Rightarrow> error + recipe_data" where
  "to_internal_value partial d p =
     (case run_field partial (d_tags p) (tags_field d) of
        Inl e \<Rightarrow> Inl e
      | Inr t \<Rightarrow>
     (case run_field partial (d_ingredients p) (validate_ingredients d) of
        Inl e \<Rightarrow> Inl e
      | Inr i \<Rightarrow>
     (case run_field partial (d_name p) Inr of
        Inl e \<Rightarrow> Inl e
      | Inr n \<Rightarrow>
     (case run_field partial (d_image p) Inr of
        Inl e \<Rightarrow> Inl e
      | Inr im \<Rightarrow>
     (case run_field partial (d_text p) Inr of
        Inl e \<Rightarrow> Inl e
      | Inr tx \<Rightarrow>
     (case run_field partial (d_cooking_time p) validate_cooking_time of
        Inl e \<Rightarrow> Inl e
      | Inr c \<Rightarrow>
          (let errors = errors_of ''tags'' t @ errors_of ''ingredients'' i
                 @ errors_of ''name'' n @ errors_of ''image'' im
                 @ errors_of ''text'' tx @ errors_of ''cooking_time'' c
           in if errors \<noteq> [] then Inl (ValidationError (Fields errors))
              else Inr \<lparr>d_tags = value_of t, d_ingredients = value_of i,
                        d_name = value_of n, d_image = value_of im,
                        d_text = value_of tx, d_cooking_time = value_of c\<rparr>)))))))"

section \<open>RecipeWriteSerializer: create and update\<close>

text \<open>
  \<open>@transaction.atomic\<close>: the body runs on the tables; when it raises, what it wrote
  is rolled back.
\<close>

definition atomic :: "(db \<Rightarrow> (error + 'a) \<times> db) \<Rightarrow> db \<Rightarrow> (error + 'a) \<times> db" where
  "atomic body d =
     (case body d of
        (Inl e, d') \<Rightarrow> (Inl e, d)
      | (Inr x, d') \<Rightarrow> (Inr x, d'))"

text \<open>\<open>instance.save()\<close>: update the row with this primary key, insert it when there is none.\<close>

definition save :: "recipe \<Rightarrow> db \<Rightarrow> db" where
  "save r d =
     d\<lparr>Recipe_objects :=
         (if recipe_pk r \<in> set (map recipe_pk (Recipe_objects d))
          then map (\<lambda>x. if recipe_pk x = recipe_pk r then r else x) (Recipe_objects d)
          else Recipe_objects d @ [r])\<rparr>"

text \<open>\<open>instance.tags.clear()\<close> and \<open>instance.ingredients.clear()\<close>.\<close>

definition tags_clear :: "pk \<Rightarrow> db \<Rightarrow> db" where
  "tags_clear rid d = d\<lparr>Recipe_tags := filter (\<lambda>row. fst row \<noteq> rid) (Recipe_tags d)\<rparr>"

definition ingredients_clear :: "pk \<Rightarrow> db \<Rightarrow> db" where
  "ingredients_clear rid d =
     d\<lparr>IngredientInRecipe_objects :=
         filter (\<lambda>row. iir_recipe row \<noteq> rid) (IngredientInRecipe_objects d)\<rparr>"

text \<open>
  \<open>instance.tags.set(tags)\<close>: the framework removes the rows of the recipe whose tag is
  not in \<open>tags\<close> and adds one row for each tag of \<open>tags\<close> that has none yet.
\<close>

definition tags_set :: "pk \<Rightarrow> pk list \<Rightarrow> db \<Rightarrow> db" where
  "tags_set rid tags d =
     (let kept = filter (\<lambda>row. fst row \<noteq> rid \<or> snd row \<in> set tags) (Recipe_tags d);
          new_objs = remdups (filter (\<lambda>t. (rid, t) \<notin> set kept) tags)
      in d\<lparr>Recipe_tags := kept @ map (Pair rid) new_objs\<rparr>)"

text \<open>
  The list comprehension of \<open>create_ingredients_amounts\<close>: \<open>Ingredient.objects.get\<close>
  raises \<open>DoesNotExist\<close> for an id without a row.
\<close>

fun ingredient_rows ::
  "db \<Rightarrow> pk \<Rightarrow> ingredient_item list \<Rightarrow> error + ingredient_in_recipe list" where
  "ingredient_rows d rid [] = Inr []"
| "ingredient_rows d rid (item # items) =
     (case find (\<lambda>i. ingredient_pk i = item_id item) (Ingredient_objects d) of
        None \<Rightarrow> Inl DoesNotExist
      | Some i \<Rightarrow>
          (case ingredient_rows d rid items of
             Inl e \<Rightarrow> Inl e
           | Inr rows \<Rightarrow>
               Inr (\<lparr>iir_recipe = rid, iir_ingredient = ingredient_pk i,
                     amount = item_amount item\<rparr> # rows)))"

definition iir_key :: "ingredient_in_recipe \<Rightarrow> pk \<times> pk" where
  "iir_key row = (iir_recipe row, iir_ingredient row)"

text \<open>\<open>bulk_create\<close>: all rows are inserted, or none when the schema's constraint is broken.\<close>

definition bulk_create :: "ingredient_in_recipe list \<Rightarrow> db \<Rightarrow> (error + unit) \<times> db" where
  "bulk_create rows d =
     (if IngredientInRecipe_unique d
         \<and> \<not> distinct (map iir_key (IngredientInRecipe_objects d @ rows))
      then (Inl IntegrityError, d)
      else (Inr (), d\<lparr>IngredientInRecipe_objects := IngredientInRecipe_objects d @ rows\<rparr>))"

definition create_ingredients_amounts_body ::
  "ingredient_item list \<Rightarrow> pk \<Rightarrow> db \<Rightarrow> (error + unit) \<times> db" where
  "create_ingredients_amounts_body ingredients rid d =
     (case ingredient_rows d rid ingredients of
        Inl e \<Rightarrow> (Inl e, d)
      | Inr rows \<Rightarrow> bulk_create rows d)"

definition create_ingredients_amounts ::
  "ingredient_item list \<Rightarrow> pk \<Rightarrow> db \<Rightarrow> (error + unit) \<times> db" where
  "create_ingredients_amounts ingredients rid =
     atomic (create_ingredients_amounts_body ingredients rid)"

text \<open>
  \<open>super().update(instance, validated_data)\<close>: every key left in the validated data
  is assigned to the instance, which is then saved.
\<close>

definition set_attrs :: "recipe \<Rightarrow> recipe_data \<Rightarrow> recipe" where
  "set_attrs r vd =
     r\<lparr>recipe_name := (case d_name vd of None \<Rightarrow> recipe_name r | Some v \<Rightarrow> v),
       image := (case d_image vd of None \<Rightarrow> image r | Some v \<Rightarrow> v),
       recipe_text := (case d_text vd of None \<Rightarrow> recipe_text r | Some v \<Rightarrow> v),
       cooking_time := (case d_cooking_time vd of None \<Rightarrow> cooking_time r | Some v \<Rightarrow> v)\<rparr>"

definition update_body :: "recipe \<Rightarrow> recipe_data \<Rightarrow> db \<Rightarrow> (error + recipe) \<times> db" where
  "update_body instance vd d =
     (case d_tags vd of
        None \<Rightarrow> (Inl KeyError, d)
      | Some tags \<Rightarrow>
     (case d_ingredients vd of
        None \<Rightarrow> (Inl KeyError, d)
      | Some ingredients \<Rightarrow>
          (let instance' = set_attrs instance vd;
               d1 = save instance' d;
               d2 = tags_clear (recipe_pk instance') d1;
               d3 = tags_set (recipe_pk instance') tags d2;
               d4 = ingredients_clear (recipe_pk instance') d3
           in case create_ingredients_amounts ingredients (recipe_pk instance') d4 of
                (Inl e, d5) \<Rightarrow> (Inl e, d5)
              | (Inr u, d5) \<Rightarrow> (Inr instance', save instance' d5))))"

definition update :: "recipe \<Rightarrow> recipe_data \<Rightarrow> db \<Rightarrow> (error + recipe) \<times> db" where
  "update instance vd = atomic (update_body instance vd)"

text \<open>
  \<open>Recipe.objects.create(**validated_data)\<close> with the author added by
  \<open>perform_create\<close>; the new row gets the next primary key. A cooking time that is
  absent has no value to store.
\<close>

definition next_pk :: "recipe list \<Rightarrow> pk" where
  "next_pk rows = fold max (map recipe_pk rows) 0 + 1"

definition Recipe_objects_create :: "pk \<Rightarrow> recipe_data \<Rightarrow> db \<Rightarrow> (error + recipe) \<times> db" where
  "Recipe_objects_create author_pk vd d =
     (case d_cooking_time vd of
        None \<Rightarrow> (Inl IntegrityError, d)
      | Some c \<Rightarrow>
          (let r = \<lparr>recipe_pk = next_pk (Recipe_objects d), author = author_pk,
                    recipe_name = (case d_name vd of None \<Rightarrow> [] | Some v \<Rightarrow> v),
                    image = (case d_image vd of None \<Rightarrow> [] | Some v \<Rightarrow> v),
                    recipe_text = (case d_text vd of None \<Rightarrow> [] | Some v \<Rightarrow> v),
                    cooking_time = c\<rparr>
           in (Inr r, d\<lparr>Recipe_objects := Recipe_objects d @ [r]\<rparr>)))"

definition create_body :: "pk \<Rightarrow> recipe_data \<Rightarrow> db \<Rightarrow> (error + recipe) \<times> db" where
  "create_body author_pk vd d =
     (case d_tags vd of
        None \<Rightarrow> (Inl KeyError, d)
      | Some tags \<Rightarrow>
     (case d_ingredients vd of
        None \<Rightarrow> (Inl KeyError, d)
      | Some ingredients \<Rightarrow>
     (case Recipe_objects_create author_pk vd d of
        (Inl e, d1) \<Rightarrow> (Inl e, d1)
      | (Inr r, d1) \<Rightarrow>
          (let d2 = tags_set (recipe_pk r) tags d1
           in case create_ingredients_amounts ingredients (recipe_pk r) d2 of
                (Inl e, d3) \<Rightarrow> (Inl e, d3)
              | (Inr u, d3) \<Rightarrow> (Inr r, d3)))))"

definition create :: "pk \<Rightarrow> recipe_data \<Rightarrow> db \<Rightarrow> (error + recipe) \<times> db" where
  "create author_pk vd = atomic (create_body author_pk vd)"

section \<open>Requests and permissions\<close>

datatype http_method = GET | HEAD | OPTIONS | POST | PUT | PATCH | DELETE

definition SAFE_METHODS :: "http_method list" where
  "SAFE_METHODS = [GET, HEAD, OPTIONS]"

text \<open>
  \<open>request.user\<close>: the anonymous user, or the row of the authenticated user. Of the
  query string only the parameter \<open>recipes_limit\<close> is read (\<open>None\<close> when it is absent).
\<close>

datatype principal = AnonymousUser | Authenticated user

record request =
  request_method :: http_method
  request_user :: principal
  recipes_limit :: "string option"

fun is_authenticated :: "principal \<Rightarrow> bool" where
  "is_authenticated AnonymousUser = False"
| "is_authenticated (Authenticated u) = True"

fun principal_is_staff :: "principal \<Rightarrow> bool" where
  "principal_is_staff AnonymousUser = False"
| "principal_is_staff (Authenticated u) = is_staff u"

definition IsAdminOrReadOnly_has_permission :: "request \<Rightarrow> bool" where
  "IsAdminOrReadOnly_has_permission req =
     (request_method req \<in> set SAFE_METHODS \<or> principal_is_staff (request_user req))"

definition IsAuthorOrReadOnly_has_permission :: "request \<Rightarrow> bool" where
  "IsAuthorOrReadOnly_has_permission req =
     (request_method req \<in> set SAFE_METHODS \<or> is_authenticated (request_user req))"

text \<open>\<open>obj.author == request.user\<close>: two users are equal when their primary keys are.\<close>

definition IsAuthorOrReadOnly_has_object_permission :: "request \<Rightarrow> recipe \<Rightarrow> bool" where
  "IsAuthorOrReadOnly_has_object_permission req obj =
     (case request_user req of
        AnonymousUser \<Rightarrow> False
      | Authenticated u \<Rightarrow> author obj = user_pk u)"

text \<open>\<open>IsAdminOrReadOnly\<close> inherits \<open>has_object_permission\<close> from \<open>BasePermission\<close>.\<close>

definition IsAdminOrReadOnly_has_object_permission :: "request \<Rightarrow> recipe \<Rightarrow> bool" where
  "IsAdminOrReadOnly_has_object_permission req obj = True"

text \<open>
  \<open>permission_classes = (IsAuthorOrReadOnly | IsAdminOrReadOnly,)\<close>. The framework's
  \<open>OR\<close> grants a request when one operand does, and grants an object when one operand
  grants both the request and the object (the composition of the framework since
  its release 3.14).
\<close>

definition has_permission :: "request \<Rightarrow> bool" where
  "has_permission req =
     (IsAuthorOrReadOnly_has_permission req \<or> IsAdminOrReadOnly_has_permission req)"

definition has_object_permission :: "request \<Rightarrow> recipe \<Rightarrow> bool" where
  "has_object_permission req obj =
     ((IsAuthorOrReadOnly_has_permission req
         \<and> IsAuthorOrReadOnly_has_object_permission req obj)
      \<or> (IsAdminOrReadOnly_has_permission req
         \<and> IsAdminOrReadOnly_has_object_permission req obj))"

text \<open>
  The framework's \<open>permission_denied\<close>: a request that carries no authenticated
  principal is told to authenticate, any other is forbidden.
\<close>

definition permission_denied :: "request \<Rightarrow> error" where
  "permission_denied req =
     (if is_authenticated (request_user req) then PermissionDenied else NotAuthenticated)"

definition check_permissions :: "request \<Rightarrow> error + unit" where
  "check_permissions req =
     (if has_permission req then Inr () else Inl (permission_denied req))"

definition get_object :: "request \<Rightarrow> pk \<Rightarrow> db \<Rightarrow> error + recipe" where
  "get_object req i d =
     (case get_object_or_404 recipe_pk (Recipe_objects d) i of
        Inl e \<Rightarrow> Inl e
      | Inr obj \<Rightarrow>
          if has_object_permission req obj then Inr obj
          else Inl (permission_denied req))"

section \<open>RecipeViewSet: the routes of a ModelViewSet\<close>

text \<open>What a view answers with: a status and the data it renders.\<close>

datatype content =
    NoContent
  | Errors string
  | Message string
  | RecipeList "recipe list"
  | RecipeRead recipe "pk list" "(pk \<times> int) list"
  | RecipeShort recipe
  | Attachment string string
  | Subscription user "recipe list" nat
  | UserCreated user

record response =
  status :: nat
  content :: content

text \<open>The answer to a request: the exception raised, or the response returned.\<close>

type_synonym outcome = "error + response"

fun http_status :: "outcome \<Rightarrow> nat" where
  "http_status (Inl e) = status_code e"
| "http_status (Inr r) = status r"

definition HTTP_405_METHOD_NOT_ALLOWED :: outcome where
  "HTTP_405_METHOD_NOT_ALLOWED = Inr \<lparr>status = 405, content = NoContent\<rparr>"

text \<open>\<open>to_representation\<close>: the recipe as \<open>RecipeReadSerializer\<close> shows it.\<close>

definition to_representation :: "db \<Rightarrow> recipe \<Rightarrow> content" where
  "to_representation d r =
     RecipeRead r
       (map snd (filter (\<lambda>row. fst row = recipe_pk r) (Recipe_tags d)))
       (map (\<lambda>row. (iir_ingredient row, amount row))
          (filter (\<lambda>row. iir_recipe row = recipe_pk r) (IngredientInRecipe_objects d)))"

definition RecipeViewSet_list :: "request \<Rightarrow> db \<Rightarrow> outcome \<times> db" where
  "RecipeViewSet_list req d = (Inr \<lparr>status = 200, content = RecipeList (Recipe_objects d)\<rparr>, d)"

text \<open>\<open>perform_create\<close> saves with \<open>author=self.request.user\<close>, which must be a user row.\<close>

definition RecipeViewSet_create :: "request \<Rightarrow> recipe_data \<Rightarrow> db \<Rightarrow> outcome \<times> db" where
  "RecipeViewSet_create req data d =
     (case to_internal_value False d data of
        Inl e \<Rightarrow> (Inl e, d)
      | Inr vd \<Rightarrow>
          (case request_user req of
             AnonymousUser \<Rightarrow> (Inl ValueError, d)
           | Authenticated u \<Rightarrow>
               (case create (user_pk u) vd d of
                  (Inl e, d') \<Rightarrow> (Inl e, d')
                | (Inr r, d') \<Rightarrow>
                    (Inr \<lparr>status = 201, content = to_representation d' r\<rparr>, d'))))"

definition RecipeViewSet_retrieve :: "request \<Rightarrow> pk \<Rightarrow> db \<Rightarrow> outcome \<times> db" where
  "RecipeViewSet_retrieve req i d =
     (case get_object req i d of
        Inl e \<Rightarrow> (Inl e, d)
      | Inr r \<Rightarrow> (Inr \<lparr>status = 200, content = to_representation d r\<rparr>, d))"

definition RecipeViewSet_update ::
  "bool \<Rightarrow> request \<Rightarrow> pk \<Rightarrow> recipe_data \<Rightarrow> db \<Rightarrow> outcome \<times> db" where
  "RecipeViewSet_update partial req i data d =
     (case get_object req i d of
        Inl e \<Rightarrow> (Inl e, d)
      | Inr instance \<Rightarrow>
          (case to_internal_value partial d data of
             Inl e \<Rightarrow> (Inl e, d)
           | Inr vd \<Rightarrow>
               (case update instance vd d of
                  (Inl e, d') \<Rightarrow> (Inl e, d')
                | (Inr r, d') \<Rightarrow>
                    (Inr \<lparr>status = 200, content = to_representation d' r\<rparr>, d'))))"

text \<open>
  \<open>instance.delete()\<close>: the row of the recipe goes, and with it the rows that refer
  to it (the specification's lifecycle: deletion cascades relations).
\<close>

definition delete_recipe :: "pk \<Rightarrow> db \<Rightarrow> db" where
  "delete_recipe rid d =
     d\<lparr>Recipe_objects := filter (\<lambda>r. recipe_pk r \<noteq> rid) (Recipe_objects d),
       Recipe_tags := filter (\<lambda>row. fst row \<noteq> rid) (Recipe_tags d),
       IngredientInRecipe_objects :=
         filter (\<lambda>row. iir_recipe row \<noteq> rid) (IngredientInRecipe_objects d),
       Favourite_objects := filter (\<lambda>row. snd row \<noteq> rid) (Favourite_objects d),
       ShoppingCart_objects := filter (\<lambda>row. snd row \<noteq> rid) (ShoppingCart_objects d)\<rparr>"

definition RecipeViewSet_destroy :: "request \<Rightarrow> pk \<Rightarrow> db \<Rightarrow> outcome \<times> db" where
  "RecipeViewSet_destroy req i d =
     (case get_object req i d of
        Inl e \<Rightarrow> (Inl e, d)
      | Inr instance \<Rightarrow>
          (Inr \<lparr>status = 204, content = NoContent\<rparr>, delete_recipe (recipe_pk instance) d))"

text \<open>
  The framework's dispatch: the permissions of the request are checked first, then
  the handler of the method runs; the collection route \<open>/recipes/\<close> has handlers for
  reading and \<open>POST\<close>, the item route \<open>/recipes/<pk>/\<close> for reading, \<open>PUT\<close>, \<open>PATCH\<close> and
  \<open>DELETE\<close>.
\<close>

definition recipes_route :: "request \<Rightarrow> recipe_data \<Rightarrow> db \<Rightarrow> outcome \<times> db" where
  "recipes_route req data d =
     (case check_permissions req of
        Inl e \<Rightarrow> (Inl e, d)
      | Inr u \<Rightarrow>
          (case request_method req of
             GET \<Rightarrow> RecipeViewSet_list req d
           | HEAD \<Rightarrow> RecipeViewSet_list req d
           | OPTIONS \<Rightarrow> (Inr \<lparr>status = 200, content = NoContent\<rparr>, d)
           | POST \<Rightarrow> RecipeViewSet_create req data d
           | _ \<Rightarrow> (HTTP_405_METHOD_NOT_ALLOWED, d)))"

definition recipe_route :: "request \<Rightarrow> pk \<Rightarrow> recipe_data \<Rightarrow> db \<Rightarrow> outcome \<times> db" where
  "recipe_route req i data d =
     (case check_permissions req of
        Inl e \<Rightarrow> (Inl e, d)
      | Inr u \<Rightarrow>
          (case request_method req of
             GET \<Rightarrow> RecipeViewSet_retrieve req i d
           | HEAD \<Rightarrow> RecipeViewSet_retrieve req i d
           | OPTIONS \<Rightarrow> (Inr \<lparr>status = 200, content = NoContent\<rparr>, d)
           | PUT \<Rightarrow> RecipeViewSet_update False req i data d
           | PATCH \<Rightarrow> RecipeViewSet_update True req i data d
           | DELETE \<Rightarrow> RecipeViewSet_destroy req i d
           | POST \<Rightarrow> (HTTP_405_METHOD_NOT_ALLOWED, d)))"

section \<open>RecipeViewSet: favourites and shopping cart\<close>

text \<open>The \<open>model\<close> argument of \<open>_add_to\<close> and \<open>_delete_from\<close>.\<close>

datatype relation_model = Favourite | ShoppingCart

fun objects :: "relation_model \<Rightarrow> db \<Rightarrow> (pk \<times> pk) list" where
  "objects Favourite d = Favourite_objects d"
| "objects ShoppingCart d = ShoppingCart_objects d"

fun set_objects :: "relation_model \<Rightarrow> (pk \<times> pk) list \<Rightarrow> db \<Rightarrow> db" where
  "set_objects Favourite rows d = d\<lparr>Favourite_objects := rows\<rparr>"
| "set_objects ShoppingCart rows d = d\<lparr>ShoppingCart_objects := rows\<rparr>"

definition msg_already_added :: string where
  "msg_already_added = ''Recept uzhe dobavlen!''"

definition msg_recipe_not_found :: string where
  "msg_recipe_not_found = ''Recept ne naiden!''"

definition add_to :: "relation_model \<Rightarrow> user \<Rightarrow> pk \<Rightarrow> db \<Rightarrow> outcome \<times> db" where
  "add_to model u i d =
     (if (user_pk u, i) \<in> set (objects model d)
      then (Inr \<lparr>status = 400, content = Errors msg_already_added\<rparr>, d)
      else case get_object_or_404 recipe_pk (Recipe_objects d) i of
             Inl e \<Rightarrow> (Inl e, d)
           | Inr r \<Rightarrow>
               (Inr \<lparr>status = 201, content = RecipeShort r\<rparr>,
                set_objects model (objects model d @ [(user_pk u, recipe_pk r)]) d))"

definition delete_from :: "relation_model \<Rightarrow> user \<Rightarrow> pk \<Rightarrow> db \<Rightarrow> outcome \<times> db" where
  "delete_from model u i d =
     (let obj = filter (\<lambda>row. row = (user_pk u, i)) (objects model d)
      in if obj \<noteq> []
         then (Inr \<lparr>status = 204, content = NoContent\<rparr>,
               set_objects model (filter (\<lambda>row. row \<noteq> (user_pk u, i)) (objects model d)) d)
         else (Inr \<lparr>status = 400, content = Errors msg_recipe_not_found\<rparr>, d))"

text \<open>
  The actions \<open>favorite\<close> and \<open>shopping_cart\<close>, declared for \<open>POST\<close> and \<open>DELETE\<close> with
  \<open>permission_classes=[IsAuthenticated]\<close>.
\<close>

definition relation_action :: "relation_model \<Rightarrow> request \<Rightarrow> pk \<Rightarrow> db \<Rightarrow> outcome \<times> db" where
  "relation_action model req i d =
     (case request_user req of
        AnonymousUser \<Rightarrow> (Inl NotAuthenticated, d)
      | Authenticated u \<Rightarrow>
          if request_method req \<noteq> POST \<and> request_method req \<noteq> DELETE
          then (HTTP_405_METHOD_NOT_ALLOWED, d)
          else if request_method req = POST then add_to model u i d
          else delete_from model u i d)"

definition favorite :: "request \<Rightarrow> pk \<Rightarrow> db \<Rightarrow> outcome \<times> db" where
  "favorite = relation_action Favourite"

definition shopping_cart :: "request \<Rightarrow> pk \<Rightarrow> db \<Rightarrow> outcome \<times> db" where
  "shopping_cart = relation_action ShoppingCart"

section \<open>RecipeViewSet: the shopping list\<close>

text \<open>\<open>str\<close> of a Python integer.\<close>

definition digit_char :: "nat \<Rightarrow> char" where
  "digit_char n = ''0123456789'' ! (n mod 10)"

function str_nat :: "nat \<Rightarrow> string" where
  "str_nat n = (if n < 10 then [digit_char n] else str_nat (n div 10) @ [digit_char (n mod 10)])"
  by pat_completeness auto
termination
  by (relation "measure id") auto

definition str_int :: "int \<Rightarrow> string" where
  "str_int i = (if i < 0 then CHR ''-'' # str_nat (nat (- i)) else str_nat (nat i))"

definition newline :: string where
  "newline = [CHR 0x0A]"

text \<open>\<open>sep.join(xs)\<close>.\<close>

fun join :: "string \<Rightarrow> string list \<Rightarrow> string" where
  "join sep [] = []"
| "join sep [x] = x"
| "join sep (x # y # ys) = x @ sep @ join sep (y # ys)"

text \<open>
  \<open>IngredientInRecipe.objects.filter(recipe__shopping_cart__user=user)\<close>: the join of
  the ingredient rows with the rows of the user's cart on the recipe.
\<close>

definition carted_rows :: "user \<Rightarrow> db \<Rightarrow> ingredient_in_recipe list" where
  "carted_rows u d =
     concat (map (\<lambda>row. map (\<lambda>c. row)
                    (filter (\<lambda>c. c = (user_pk u, iir_recipe row)) (ShoppingCart_objects d)))
               (IngredientInRecipe_objects d))"

text \<open>
  \<open>.values('ingredient__name', 'ingredient__measurement_unit')\<close>: each row joined
  with its ingredient, keeping name, unit and amount.
\<close>

definition values_rows :: "db \<Rightarrow> ingredient_in_recipe list \<Rightarrow> ((string \<times> string) \<times> int) list" where
  "values_rows d rows =
     concat (map (\<lambda>row.
        case find (\<lambda>i. ingredient_pk i = iir_ingredient row) (Ingredient_objects d) of
          None \<Rightarrow> []
        | Some i \<Rightarrow> [((ingredient_name i, measurement_unit i), amount row)]) rows)"

text \<open>
  \<open>.annotate(amount=Sum('amount'))\<close>: one row for each pair (name, unit), with the
  sum. The query asks for no order; the groups come in the order of their last rows.
\<close>

definition annotate_sum :: "('k \<times> int) list \<Rightarrow> ('k \<times> int) list" where
  "annotate_sum rows =
     map (\<lambda>k. (k, sum_list (map snd (filter (\<lambda>r. fst r = k) rows)))) (remdups (map fst rows))"

definition shopping_ingredients :: "user \<Rightarrow> db \<Rightarrow> ((string \<times> string) \<times> int) list" where
  "shopping_ingredients u d = annotate_sum (values_rows d (carted_rows u d))"

definition shopping_line :: "(string \<times> string) \<times> int \<Rightarrow> string" where
  "shopping_line i = ''- '' @ fst (fst i) @ '' ('' @ snd (fst i) @ '') - '' @ str_int (snd i)"

definition py_isspace :: "char \<Rightarrow> bool" where
  "py_isspace c = (c \<in> set [CHR '' '', CHR 0x09, CHR 0x0A, CHR 0x0B, CHR 0x0C, CHR 0x0D])"

definition strip :: "string \<Rightarrow> string" where
  "strip s = rev (dropWhile py_isspace (rev (dropWhile py_isspace s)))"

definition get_full_name :: "user \<Rightarrow> string" where
  "get_full_name u = strip (first_name u @ '' '' @ last_name u)"

text \<open>\<open>datetime.today()\<close> as the view prints it: \<open>%Y-%m-%d\<close> and \<open>%Y\<close>.\<close>

record today =
  today_Ymd :: string
  today_Y :: string

definition msg_cart_empty :: string where
  "msg_cart_empty = ''Korzina pokupok pusta!''"

definition shopping_list :: "today \<Rightarrow> user \<Rightarrow> db \<Rightarrow> string" where
  "shopping_list t u d =
     ''Spisok pokupok dlya: '' @ get_full_name u @ newline
       @ ''Data: '' @ today_Ymd t @ newline @ newline
       @ join newline (map shopping_line (shopping_ingredients u d))
       @ newline @ newline @ ''Foodgram ('' @ today_Y t @ '')''"

definition download_shopping_cart :: "today \<Rightarrow> request \<Rightarrow> db \<Rightarrow> outcome" where
  "download_shopping_cart t req d =
     (case request_user req of
        AnonymousUser \<Rightarrow> Inl NotAuthenticated
      | Authenticated u \<Rightarrow>
          if filter (\<lambda>c. fst c = user_pk u) (ShoppingCart_objects d) = []
          then Inr \<lparr>status = 400, content = Errors msg_cart_empty\<rparr>
          else Inr \<lparr>status = 200,
                    content = Attachment (username u @ ''_shopping_list.txt'')
                                (shopping_list t u d)\<rparr>)"

section \<open>Subscriptions\<close>

text \<open>
  \<open>int(limit)\<close> on a string of ASCII characters: white space around, an optional sign,
  then decimal digits, where single underscores may separate digits. The second
  argument of \<open>int_digits\<close> is the value read so far, the third tells whether the
  character before was a digit.
\<close>

definition is_digit :: "char \<Rightarrow> bool" where
  "is_digit c = (48 \<le> (of_char c :: nat) \<and> (of_char c :: nat) \<le> 57)"

definition digit_value :: "char \<Rightarrow> nat" where
  "digit_value c = of_char c - 48"

fun int_digits :: "string \<Rightarrow> nat \<Rightarrow> bool \<Rightarrow> nat option" where
  "int_digits [] acc after_digit = (if after_digit then Some acc else None)"
| "int_digits (c # cs) acc after_digit =
     (if is_digit c then int_digits cs (10 * acc + digit_value c) True
      else if c = CHR ''_'' \<and> after_digit then int_digits cs acc False
      else None)"

definition py_int :: "string \<Rightarrow> int option" where
  "py_int s =
     (case strip s of
        [] \<Rightarrow> None
      | c # cs \<Rightarrow>
          if c = CHR ''-'' then map_option (\<lambda>n. - int n) (int_digits cs 0 False)
          else if c = CHR ''+'' then map_option int (int_digits cs 0 False)
          else map_option int (int_digits (c # cs) 0 False))"







definition msg_subscribe_self :: string where
  "msg_subscribe_self = ''Nelzya podpisatsya na samogo sebya.''"

definition msg_already_subscribed :: string where
  "msg_already_subscribed = ''Vy uzhe podpisany na etogo avtora.''"

definition msg_not_subscribed :: string where
  "msg_not_subscribed = ''Podpiska ne byla oformlena, libo udalena.''"

definition msg_unsubscribed :: string where
  "msg_unsubscribed = ''Vy uspeshno otpisalis.''"

text \<open>
  \<open>UserViewSet.get_serializer_class\<close> chooses the serializer by the action alone; the
  \<open>serializer_class\<close> that the decorator of an action names is not consulted by it.
\<close>

datatype view_action =
    Action_list
  | Action_retrieve
  | Action_create
  | Action_user_self_profile
  | Action_user_avatar
  | Action_subscribe
  | Action_subscriptions
  | Action_set_password

datatype serializer_class =
    CustomUserSerializer
  | AvatarUserSerializer
  | SetPasswordSerializer
  | UserSerializer

definition get_serializer_class :: "view_action \<Rightarrow> serializer_class" where
  "get_serializer_class action =
     (if action \<in> set [Action_list, Action_retrieve, Action_user_self_profile]
      then CustomUserSerializer
      else if action = Action_user_avatar then AvatarUserSerializer
      else if action = Action_set_password then SetPasswordSerializer
      else UserSerializer)"

text \<open>
  \<open>serializer.data\<close> of a \<open>UserSerializer\<close>: the fields \<open>id\<close>, \<open>username\<close>,
  \<open>first_name\<close>, \<open>last_name\<close> and \<open>email\<close> of the user (the password is only written).
  No query parameter is read.
\<close>

definition UserSerializer_data :: "user \<Rightarrow> content" where
  "UserSerializer_data obj = UserCreated obj"

text \<open>
  \<open>UserViewSet.subscribe\<close>. \<open>Subscribe.objects.create\<close> meets the constraint
  \<open>unique_subscribe\<close> of the model; \<open>get_object_or_404(Subscribe, user=..., author=...)\<close>
  needs exactly one row. \<open>self.get_serializer(author)\<close> builds the serializer that
  \<open>get_serializer_class\<close> returns for the action \<open>subscribe\<close>, which is \<open>UserSerializer\<close>.
\<close>

definition subscribe :: "request \<Rightarrow> pk \<Rightarrow> db \<Rightarrow> outcome \<times> db" where
  "subscribe req i d =
     (case request_user req of
        AnonymousUser \<Rightarrow> (Inr \<lparr>status = 401, content = NoContent\<rparr>, d)
      | Authenticated u \<Rightarrow>
     (case get_object_or_404 user_pk (User_objects d) i of
        Inl e \<Rightarrow> (Inl e, d)
      | Inr a \<Rightarrow>
          if request_method req = POST then
            (if user_pk u = user_pk a
             then (Inl (ValidationError (Msgs [msg_subscribe_self])), d)
             else if (user_pk u, user_pk a) \<in> set (Subscribe_objects d)
             then (Inl (ValidationError (Msgs [msg_already_subscribed])), d)
             else
               (let d' = d\<lparr>Subscribe_objects :=
                              Subscribe_objects d @ [(user_pk u, user_pk a)]\<rparr>
                in (Inr \<lparr>status = 201, content = UserSerializer_data a\<rparr>, d')))
          else if request_method req = DELETE then
            (if (user_pk u, user_pk a) \<notin> set (Subscribe_objects d)
             then (Inl (ValidationError (Msgs [msg_not_subscribed])), d)
             else
               (case filter (\<lambda>row. row = (user_pk u, user_pk a)) (Subscribe_objects d) of
                  [] \<Rightarrow> (Inl Http404, d)
                | [subscription] \<Rightarrow>
                    (Inr \<lparr>status = 204, content = Message msg_unsubscribed\<rparr>,
                     d\<lparr>Subscribe_objects := remove1 subscription (Subscribe_objects d)\<rparr>)
                | _ \<Rightarrow> (Inl MultipleObjectsReturned, d)))
          else (HTTP_405_METHOD_NOT_ALLOWED, d)))"

text \<open>
  The claim's words for the values \<open>int\<close> reads, written without the reader: a
  decimal integer literal is, between optional white space, an optional sign followed
  by groups of decimal digits that single underscores separate (every group has a
  digit). Strings are read as ASCII text.
\<close>

fun split_on :: "char \<Rightarrow> string \<Rightarrow> string list" where
  "split_on c [] = [[]]"
| "split_on c (x # xs) =
     (if x = c then [] # split_on c xs
      else (case split_on c xs of [] \<Rightarrow> [[x]] | g # gs \<Rightarrow> (x # g) # gs))"




section \<open>Registration\<close>

text \<open>
  \<open>RegexValidator(regex=r'^[\w.@+-]+')\<close>: the validator searches the value for the
  pattern, which asks for one or more characters of the class at the start of the
  value and for nothing after them. The class is read on ASCII characters: letters,
  digits, the underscore, and the four characters named.
\<close>

definition is_word_char :: "char \<Rightarrow> bool" where
  "is_word_char c =
     (let n = (of_char c :: nat)
      in (48 \<le> n \<and> n \<le> 57) \<or> (65 \<le> n \<and> n \<le> 90) \<or> (97 \<le> n \<and> n \<le> 122) \<or> n = 95)"

definition in_class :: "char \<Rightarrow> bool" where
  "in_class c = (is_word_char c \<or> c \<in> set [CHR ''.'', CHR ''@'', CHR ''+'', CHR ''-''])"

definition regex_search :: "string \<Rightarrow> bool" where
  "regex_search v = (takeWhile in_class v \<noteq> [])"

definition USERNAME_MAX_LENGTH :: nat where
  "USERNAME_MAX_LENGTH = 150"

definition EMAIL_MAX_LENGTH :: nat where
  "EMAIL_MAX_LENGTH = 254"

definition msg_username_too_long :: string where
  "msg_username_too_long = ''Imya polzovatelya ne dolzhno byt dlinee 150 simvolov''"

definition msg_username_taken :: string where
  "msg_username_taken = ''Eto imya polzovatelya uzhe zanyato''"

definition msg_username_chars :: string where
  "msg_username_chars = ''Imya polzovatelya soderzhit nedopustimye simvoly''"

definition msg_email_too_long :: string where
  "msg_email_too_long = ''Email ne dolzhen prevyshat 254 simvola''"

definition msg_email_chars :: string where
  "msg_email_chars = ''Adres elektronnoi pochty soderzhit nedopustimye simvoly''"

definition msg_email_invalid :: string where
  "msg_email_invalid = ''Enter a valid email address.''"

definition msg_first_name_too_long :: string where
  "msg_first_name_too_long = ''Imya ne dolzhno byt dlinee 150 simvolov''"

definition msg_last_name_too_long :: string where
  "msg_last_name_too_long = ''Familiya ne dolzhna byt dlinee 150 simvolov''"

definition msg_blank :: string where
  "msg_blank = ''This field may not be blank.''"

definition msg_cannot_create_user :: string where
  "msg_cannot_create_user = ''Unable to create account.''"

text \<open>
  A character field of the framework: the value is stripped, an empty value is
  refused, then every validator of the field runs and their messages are collected.
\<close>

definition char_field :: "(string \<Rightarrow> string list) \<Rightarrow> string \<Rightarrow> error + string" where
  "char_field validators v =
     (let w = strip v
      in if w = [] then Inl (ValidationError (Msgs [msg_blank]))
         else if validators w \<noteq> [] then Inl (ValidationError (Msgs (validators w)))
         else Inr w)"

definition username_validators :: "db \<Rightarrow> string \<Rightarrow> string list" where
  "username_validators d v =
     (if length v > USERNAME_MAX_LENGTH then [msg_username_too_long] else [])
     @ (if v \<in> set (map username (User_objects d)) then [msg_username_taken] else [])
     @ (if \<not> regex_search v then [msg_username_chars] else [])"

text \<open>
  The validators of the \<open>email\<close> field; the last is the framework's own
  \<open>EmailValidator\<close>, which an \<open>EmailField\<close> adds, taken as the parameter \<open>ev\<close>.
\<close>

definition email_validators :: "(string \<Rightarrow> bool) \<Rightarrow> string \<Rightarrow> string list" where
  "email_validators ev v =
     (if length v > EMAIL_MAX_LENGTH then [msg_email_too_long] else [])
     @ (if \<not> regex_search v then [msg_email_chars] else [])
     @ (if \<not> ev v then [msg_email_invalid] else [])"

definition name_validators :: "string \<Rightarrow> string \<Rightarrow> string list" where
  "name_validators msg v = (if length v > USERNAME_MAX_LENGTH then [msg] else [])"

record user_data =
  u_username :: "string option"
  u_first_name :: "string option"
  u_last_name :: "string option"
  u_email :: "string option"
  u_password :: "string option"

text \<open>
  \<open>UserSerializer\<close>: the fields in the order of \<open>Meta.fields\<close> (\<open>id\<close> is read-only);
  \<open>validate\<close> finds \<open>last_name\<close> among the validated data, as the field is required.
\<close>

definition UserSerializer_to_internal_value ::
  "(string \<Rightarrow> bool) \<Rightarrow> db \<Rightarrow> user_data \<Rightarrow> error + user_data" where
  "UserSerializer_to_internal_value ev d p =
     (case run_field False (u_username p) (char_field (username_validators d)) of
        Inl e \<Rightarrow> Inl e
      | Inr un \<Rightarrow>
     (case run_field False (u_first_name p)
             (char_field (name_validators msg_first_name_too_long)) of
        Inl e \<Rightarrow> Inl e
      | Inr fn \<Rightarrow>
     (case run_field False (u_last_name p)
             (char_field (name_validators msg_last_name_too_long)) of
        Inl e \<Rightarrow> Inl e
      | Inr ln \<Rightarrow>
     (case run_field False (u_email p) (char_field (email_validators ev)) of
        Inl e \<Rightarrow> Inl e
      | Inr em \<Rightarrow>
     (case run_field False (u_password p) (char_field (\<lambda>v. [])) of
        Inl e \<Rightarrow> Inl e
      | Inr pw \<Rightarrow>
          (let errors = errors_of ''username'' un @ errors_of ''first_name'' fn
                 @ errors_of ''last_name'' ln @ errors_of ''email'' em
                 @ errors_of ''password'' pw
           in if errors \<noteq> [] then Inl (ValidationError (Fields errors))
              else Inr \<lparr>u_username = value_of un, u_first_name = value_of fn,
                        u_last_name = value_of ln, u_email = value_of em,
                        u_password = value_of pw\<rparr>))))))"

text \<open>
  \<open>create\<close> of the serializer's base class: \<open>User.objects.create_user\<close>, where an
  \<open>IntegrityError\<close> of the unique columns \<open>username\<close> and \<open>email\<close> becomes a
  \<open>ValidationError\<close>.
\<close>

definition next_user_pk :: "user list \<Rightarrow> pk" where
  "next_user_pk rows = fold max (map user_pk rows) 0 + 1"

definition create_user :: "user_data \<Rightarrow> db \<Rightarrow> (error + user) \<times> db" where
  "create_user vd d =
     (case (u_username vd, u_first_name vd, u_last_name vd, u_email vd, u_password vd) of
        (Some un, Some fn, Some ln, Some em, Some pw) \<Rightarrow>
          if un \<in> set (map username (User_objects d)) \<or> em \<in> set (map email (User_objects d))
          then (Inl (ValidationError (Msgs [msg_cannot_create_user])), d)
          else
            (let u = \<lparr>user_pk = next_user_pk (User_objects d), username = un, email = em,
                      first_name = fn, last_name = ln, password = pw, is_staff = False\<rparr>
             in (Inr u, d\<lparr>User_objects := User_objects d @ [u]\<rparr>))
      | _ \<Rightarrow> (Inl KeyError, d))"

text \<open>\<open>UserViewSet.create\<close>: the registration of a new user.\<close>

definition UserViewSet_create :: "(string \<Rightarrow> bool) \<Rightarrow> user_data \<Rightarrow> db \<Rightarrow> outcome \<times> db" where
  "UserViewSet_create ev data d =
     (case UserSerializer_to_internal_value ev d data of
        Inl e \<Rightarrow> (Inl e, d)
      | Inr vd \<Rightarrow>
          (case create_user vd d of
             (Inl e, d') \<Rightarrow> (Inl e, d')
           | (Inr u, d') \<Rightarrow> (Inr \<lparr>status = 201, content = UserCreated u\<rparr>, d')))"

section \<open>What a full replacement of the associations means\<close>

text \<open>
  The words of the specification for an update: afterwards the tag rows of the recipe
  are the supplied tags, one row each, its ingredient rows are the supplied pairs of
  ingredient and amount, and the rows of every other recipe are what they were.
\<close>

definition tags_of :: "pk \<Rightarrow> db \<Rightarrow> pk list" where
  "tags_of rid d = map snd (filter (\<lambda>row. fst row = rid) (Recipe_tags d))"

definition amounts_of :: "pk \<Rightarrow> db \<Rightarrow> (pk \<times> int) list" where
  "amounts_of rid d =
     map (\<lambda>row. (iir_ingredient row, amount row))
       (filter (\<lambda>row. iir_recipe row = rid) (IngredientInRecipe_objects d))"

definition associations_replaced ::
  "pk \<Rightarrow> pk list \<Rightarrow> ingredient_item list \<Rightarrow> db \<Rightarrow> db \<Rightarrow> bool" where
  "associations_replaced rid tags ings d d' =
     (set (tags_of rid d') = set tags
      \<and> distinct (tags_of rid d')
      \<and> amounts_of rid d' = map (\<lambda>i. (item_id i, item_amount i)) ings
      \<and> filter (\<lambda>row. fst row \<noteq> rid) (Recipe_tags d')
          = filter (\<lambda>row. fst row \<noteq> rid) (Recipe_tags d)
      \<and> filter (\<lambda>row. iir_recipe row \<noteq> rid) (IngredientInRecipe_objects d')
          = filter (\<lambda>row. iir_recipe row \<noteq> rid) (IngredientInRecipe_objects d))"

section \<open>Sample data\<close>

text \<open>
  A small store on which the properties below are exercised: Alice is the author of
  one recipe with 2 eggs and 100 g of flour, Bob has it among his favourites and in
  his cart and follows Alice; Carol is a member of staff.
\<close>

definition alice :: user where
  "alice = \<lparr>user_pk = 1, username = ''alice'', email = ''alice@example.com'',
            first_name = ''Alice'', last_name = ''Ivanova'', password = ''secret1'',
            is_staff = False\<rparr>"

definition bob :: user where
  "bob = \<lparr>user_pk = 2, username = ''bob'', email = ''bob@example.com'',
          first_name = ''Bob'', last_name = ''Petrov'', password = ''secret2'',
          is_staff = False\<rparr>"

definition carol :: user where
  "carol = \<lparr>user_pk = 3, username = ''carol'', email = ''carol@example.com'',
            first_name = ''Carol'', last_name = ''Sidorova'', password = ''secret3'',
            is_staff = True\<rparr>"

definition eggs :: ingredient where
  "eggs = \<lparr>ingredient_pk = 1, ingredient_name = ''eggs'', measurement_unit = ''pcs''\<rparr>"

definition flour :: ingredient where
  "flour = \<lparr>ingredient_pk = 2, ingredient_name = ''flour'', measurement_unit = ''g''\<rparr>"

definition pancakes :: recipe where
  "pancakes = \<lparr>recipe_pk = 1, author = 1, recipe_name = ''pancakes'', image = ''p.png'',
               recipe_text = ''mix and fry'', cooking_time = 20\<rparr>"

definition sample_db :: db where
  "sample_db =
     \<lparr>User_objects = [alice, bob, carol],
      Subscribe_objects = [(2, 1)],
      Tag_objects = [\<lparr>tag_pk = 1, tag_name = ''breakfast'', tag_slug = ''breakfast''\<rparr>,
                     \<lparr>tag_pk = 2, tag_name = ''dinner'', tag_slug = ''dinner''\<rparr>],
      Ingredient_objects = [eggs, flour],
      Recipe_objects = [pancakes],
      Recipe_tags = [(1, 1)],
      IngredientInRecipe_objects =
        [\<lparr>iir_recipe = 1, iir_ingredient = 1, amount = 2\<rparr>,
         \<lparr>iir_recipe = 1, iir_ingredient = 2, amount = 100\<rparr>],
      IngredientInRecipe_unique = True,
      Favourite_objects = [(2, 1)],
      ShoppingCart_objects = [(2, 1)]\<rparr>"

definition request_of :: "http_method \<Rightarrow> principal \<Rightarrow> request" where
  "request_of m p = \<lparr>request_method = m, request_user = p, recipes_limit = None\<rparr>"

text \<open>A registration whose username and email carry characters outside the class.\<close>

definition dave_data :: user_data where
  "dave_data = \<lparr>u_username = Some ''dave!'', u_first_name = Some ''Dave'',
      u_last_name = Some ''Orlov'', u_email = Some ''dave#1@example.com'',
      u_password = Some ''secret4''\<rparr>"

text \<open>An update of the recipe: another tag, and three eggs as the only ingredient.\<close>

definition new_amounts :: recipe_data where
  "new_amounts =
     \<lparr>d_tags = Some [2], d_ingredients = Some [\<lparr>item_id = 1, item_amount = 3\<rparr>],
      d_name = Some ''pancakes'', d_image = Some ''p.png'',
      d_text = Some ''mix and fry'', d_cooking_time = Some 25\<rparr>"

text \<open>
  A second store: Alice also wrote an omelette with 3 eggs, and Bob's cart holds
  both recipes. The day of the download is the first of March 2024.
\<close>

definition two_recipes_db :: db where
  "two_recipes_db =
     sample_db
       \<lparr>Recipe_objects :=
          [pancakes,
           \<lparr>recipe_pk = 2, author = 1, recipe_name = ''omelette'', image = ''o.png'',
            recipe_text = ''beat and fry'', cooking_time = 10\<rparr>],
        IngredientInRecipe_objects :=
          [\<lparr>iir_recipe = 1, iir_ingredient = 1, amount = 2\<rparr>,
           \<lparr>iir_recipe = 1, iir_ingredient = 2, amount = 100\<rparr>,
           \<lparr>iir_recipe = 2, iir_ingredient = 1, amount = 3\<rparr>],
        ShoppingCart_objects := [(2, 1), (2, 2)]\<rparr>"

definition first_of_march :: today where
  "first_of_march = \<lparr>today_Ymd = ''2024-03-01'', today_Y = ''2024''\<rparr>"

text \<open>
  Requests that break the rules of the recipe write path: the same ingredient twice
  where no ingredient has the id, the same stored ingredient twice, and the same tag
  twice.
\<close>

definition missing_twice :: recipe_data where
  "missing_twice =
     new_amounts\<lparr>d_ingredients := Some [\<lparr>item_id = 99, item_amount = 1\<rparr>,
                                      \<lparr>item_id = 99, item_amount = 1\<rparr>]\<rparr>"

definition eggs_twice :: recipe_data where
  "eggs_twice =
     new_amounts\<lparr>d_ingredients := Some [\<lparr>item_id = 1, item_amount = 1\<rparr>,
                                      \<lparr>item_id = 1, item_amount = 2\<rparr>]\<rparr>"

definition tag_twice :: recipe_data where
  "tag_twice = new_amounts\<lparr>d_tags := Some [1, 1]\<rparr>"

text \<open>The conditions of the write path that a request can break.\<close>

definition bad_tags :: "pk list \<Rightarrow> bool" where
  "bad_tags ts = (ts = [] \<or> \<not> distinct ts)"

definition bad_ingredients :: "ingredient_item list \<Rightarrow> bool" where
  "bad_ingredients v =
     (v = [] \<or> \<not> distinct (map item_id v) \<or> list_ex (\<lambda>i. item_amount i \<le> 0) v)"


section \<open>Verified properties\<close>

subsection \<open>A request that fails validation stores nothing\<close>

lemma recipes_route_invalid:
  assumes "\<forall>vd. to_internal_value False d data \<noteq> Inr vd" and "request_method req = POST"
  shows "\<exists>e. recipes_route req data d = (Inl e, d)"
proof (cases "to_internal_value False d data")
  case (Inl e)
  then show ?thesis
    using assms(2)
    by (simp add: recipes_route_def RecipeViewSet_create_def split: sum.splits)
next
  case (Inr vd)
  then show ?thesis using assms(1) by simp
qed

lemma recipe_route_invalid:
  assumes "\<forall>vd. to_internal_value (request_method req = PATCH) d data \<noteq> Inr vd"
    and "request_method req = PUT \<or> request_method req = PATCH"
  shows "\<exists>e. recipe_route req i data d = (Inl e, d)"
proof (cases "to_internal_value (request_method req = PATCH) d data")
  case (Inl e)
  then show ?thesis
    using assms(2)
    by (auto simp: recipe_route_def RecipeViewSet_update_def split: sum.splits)
next
  case (Inr vd)
  then show ?thesis using assms(1) by simp
qed

subsection \<open>Cooking time\<close>





subsection \<open>Favourites and shopping cart\<close>

lemma objects_set_objects: "objects m (set_objects m rows d) = rows"
  by (cases m) simp_all

lemma objects_set_objects_other:
  "m' \<noteq> m \<Longrightarrow> objects m' (set_objects m rows d) = objects m' d"
  by (cases m; cases m') simp_all

lemma add_to_existing:
  "(user_pk u, i) \<in> set (objects m d) \<Longrightarrow>
   add_to m u i d = (Inr \<lparr>status = 400, content = Errors msg_already_added\<rparr>, d)"
  by (simp add: add_to_def)

lemma get_object_or_404_found:
  "i \<in> set (map key rows) \<Longrightarrow> \<exists>r. get_object_or_404 key rows i = Inr r \<and> key r = i \<and> r \<in> set rows"
  by (induction rows) (auto simp: get_object_or_404_def)

lemma get_object_or_404_missing:
  "i \<notin> set (map key rows) \<Longrightarrow> get_object_or_404 key rows i = Inl Http404"
  by (induction rows) (auto simp: get_object_or_404_def)

lemma get_object_or_404_Inr:
  "get_object_or_404 key rows i = Inr r \<Longrightarrow> key r = i \<and> r \<in> set rows"
  by (induction rows) (auto simp: get_object_or_404_def split: if_splits)

lemma get_object_or_404_Inl:
  "get_object_or_404 key rows i = Inl e \<Longrightarrow> e = Http404 \<and> i \<notin> set (map key rows)"
  by (induction rows) (auto simp: get_object_or_404_def split: if_splits)

lemma add_to_new:
  assumes "(user_pk u, i) \<notin> set (objects m d)" and "i \<in> set (map recipe_pk (Recipe_objects d))"
  shows "\<exists>r. add_to m u i d =
           (Inr \<lparr>status = 201, content = RecipeShort r\<rparr>,
            set_objects m (objects m d @ [(user_pk u, i)]) d)"
  using assms get_object_or_404_found [of i recipe_pk "Recipe_objects d"]
  by (auto simp: add_to_def)

lemma delete_from_absent:
  "(user_pk u, i) \<notin> set (objects m d) \<Longrightarrow>
   delete_from m u i d = (Inr \<lparr>status = 400, content = Errors msg_recipe_not_found\<rparr>, d)"
  by (simp add: delete_from_def Let_def filter_empty_conv)

lemma delete_from_present:
  "(user_pk u, i) \<in> set (objects m d) \<Longrightarrow>
   delete_from m u i d =
     (Inr \<lparr>status = 204, content = NoContent\<rparr>,
      set_objects m (filter (\<lambda>row. row \<noteq> (user_pk u, i)) (objects m d)) d)"
  by (auto simp: delete_from_def Let_def filter_empty_conv)

lemma length_filter_distinct:
  "distinct xs \<Longrightarrow> x \<in> set xs \<Longrightarrow> Suc (length (filter (\<lambda>y. y \<noteq> x) xs)) = length xs"
proof (induction xs)
  case Nil
  then show ?case by simp
next
  case (Cons a xs)
  have id: "x \<notin> set xs \<Longrightarrow> filter (\<lambda>y. y \<noteq> x) xs = xs"
    by (induction xs) auto
  show ?case
  proof (cases "a = x")
    case True
    then show ?thesis using Cons.prems id by simp
  next
    case False
    then show ?thesis using Cons by simp
  qed
qed

text \<open>
  Claim C4. For a user \<open>u\<close>, a recipe key \<open>i\<close> and either relation (\<open>Favourite\<close> or
  \<open>ShoppingCart\<close>): adding an existing pair answers 400 and leaves the store as it
  is; removing an absent pair answers 400 and leaves the store as it is; adding an
  absent pair for an existing recipe answers 201 and appends exactly the row
  \<open>(u, i)\<close>; removing a present pair answers 204 and the pair is gone (one row less
  when the rows are distinct). The actions \<open>favorite\<close> and \<open>shopping_cart\<close> of an
  authenticated request are these operations.
\<close>

theorem relation_add_remove:
  "((user_pk u, i) \<in> set (objects m d) \<longrightarrow>
      add_to m u i d = (Inr \<lparr>status = 400, content = Errors msg_already_added\<rparr>, d)
      \<and> (\<exists>d'. delete_from m u i d = (Inr \<lparr>status = 204, content = NoContent\<rparr>, d')
            \<and> (user_pk u, i) \<notin> set (objects m d')
            \<and> objects m d' = filter (\<lambda>row. row \<noteq> (user_pk u, i)) (objects m d)
            \<and> (distinct (objects m d) \<longrightarrow>
                 Suc (length (objects m d')) = length (objects m d))))
   \<and> ((user_pk u, i) \<notin> set (objects m d) \<longrightarrow>
      delete_from m u i d = (Inr \<lparr>status = 400, content = Errors msg_recipe_not_found\<rparr>, d)
      \<and> (i \<in> set (map recipe_pk (Recipe_objects d)) \<longrightarrow>
           (\<exists>r d'. add_to m u i d = (Inr \<lparr>status = 201, content = RecipeShort r\<rparr>, d')
              \<and> objects m d' = objects m d @ [(user_pk u, i)])))
   \<and> (request_user req = Authenticated u \<longrightarrow>
        (request_method req = POST \<longrightarrow>
           favorite req i d = add_to Favourite u i d
           \<and> shopping_cart req i d = add_to ShoppingCart u i d)
        \<and> (request_method req = DELETE \<longrightarrow>
           favorite req i d = delete_from Favourite u i d
           \<and> shopping_cart req i d = delete_from ShoppingCart u i d))"
proof -
  have a: "(user_pk u, i) \<in> set (objects m d) \<Longrightarrow>
      \<exists>d'. delete_from m u i d = (Inr \<lparr>status = 204, content = NoContent\<rparr>, d')
            \<and> (user_pk u, i) \<notin> set (objects m d')
            \<and> objects m d' = filter (\<lambda>row. row \<noteq> (user_pk u, i)) (objects m d)
            \<and> (distinct (objects m d) \<longrightarrow>
                 Suc (length (objects m d')) = length (objects m d))"
    using delete_from_present [of u i m d] length_filter_distinct [of "objects m d" "(user_pk u, i)"]
    by (simp add: objects_set_objects)
  have b: "(user_pk u, i) \<notin> set (objects m d) \<Longrightarrow> i \<in> set (map recipe_pk (Recipe_objects d)) \<Longrightarrow>
      \<exists>r d'. add_to m u i d = (Inr \<lparr>status = 201, content = RecipeShort r\<rparr>, d')
              \<and> objects m d' = objects m d @ [(user_pk u, i)]"
    using add_to_new [of u i m d] by (auto simp: objects_set_objects)
  have c: "request_user req = Authenticated u \<Longrightarrow> request_method req = POST \<Longrightarrow>
      favorite req i d = add_to Favourite u i d
      \<and> shopping_cart req i d = add_to ShoppingCart u i d"
    by (simp add: favorite_def shopping_cart_def relation_action_def)
  have e: "request_user req = Authenticated u \<Longrightarrow> request_method req = DELETE \<Longrightarrow>
      favorite req i d = delete_from Favourite u i d
      \<and> shopping_cart req i d = delete_from ShoppingCart u i d"
    by (simp add: favorite_def shopping_cart_def relation_action_def)
  show ?thesis
    using a b c e add_to_existing [of u i m d] delete_from_absent [of u i m d] by blast
qed



lemma sample_objects:
  "Favourite_objects sample_db = [(2, 1)]" "ShoppingCart_objects sample_db = [(2, 1)]"
  "map recipe_pk (Recipe_objects sample_db) = [1]"
  "user_pk bob = 2" "user_pk alice = 1" "user_pk carol = 3"
  by (simp_all add: sample_db_def pancakes_def bob_def alice_def carol_def)

theorem relation_add_remove_witness:
  "add_to Favourite bob 1 sample_db
     = (Inr \<lparr>status = 400, content = Errors msg_already_added\<rparr>, sample_db)
   \<and> delete_from Favourite alice 1 sample_db
     = (Inr \<lparr>status = 400, content = Errors msg_recipe_not_found\<rparr>, sample_db)
   \<and> (\<exists>r d'. add_to ShoppingCart alice 1 sample_db
          = (Inr \<lparr>status = 201, content = RecipeShort r\<rparr>, d')
        \<and> objects ShoppingCart d' = [(2, 1), (1, 1)])
   \<and> (\<exists>d'. delete_from ShoppingCart bob 1 sample_db
          = (Inr \<lparr>status = 204, content = NoContent\<rparr>, d')
        \<and> objects ShoppingCart d' = [])
   \<and> favorite (request_of POST (Authenticated bob)) 1 sample_db
     = add_to Favourite bob 1 sample_db"
proof -
  have a: "add_to Favourite bob 1 sample_db
     = (Inr \<lparr>status = 400, content = Errors msg_already_added\<rparr>, sample_db)"
    using relation_add_remove [where u = bob and i = 1 and m = Favourite and d = sample_db
        and req = "request_of POST (Authenticated bob)"]
    by (auto simp: sample_objects)
  have b: "delete_from Favourite alice 1 sample_db
     = (Inr \<lparr>status = 400, content = Errors msg_recipe_not_found\<rparr>, sample_db)"
    using relation_add_remove [where u = alice and i = 1 and m = Favourite and d = sample_db
        and req = "request_of POST (Authenticated bob)"]
    by (auto simp: sample_objects)
  have c: "\<exists>r d'. add_to ShoppingCart alice 1 sample_db
          = (Inr \<lparr>status = 201, content = RecipeShort r\<rparr>, d')
        \<and> objects ShoppingCart d' = [(2, 1), (1, 1)]"
    using relation_add_remove [where u = alice and i = 1 and m = ShoppingCart and d = sample_db
        and req = "request_of POST (Authenticated bob)"]
    by (auto simp: sample_objects)
  have e: "\<exists>d'. delete_from ShoppingCart bob 1 sample_db
          = (Inr \<lparr>status = 204, content = NoContent\<rparr>, d')
        \<and> objects ShoppingCart d' = []"
    using relation_add_remove [where u = bob and i = 1 and m = ShoppingCart and d = sample_db
        and req = "request_of POST (Authenticated bob)"]
    by (auto simp: sample_objects)
  have f: "favorite (request_of POST (Authenticated bob)) 1 sample_db
     = add_to Favourite bob 1 sample_db"
    using relation_add_remove [where u = bob and req = "request_of POST (Authenticated bob)"]
    by (simp add: request_of_def)
  show ?thesis using a b c e f by blast
qed


lemma sample_recipes:
  "Recipe_objects sample_db = [pancakes]" "recipe_pk pancakes = 1" "author pancakes = 1"
  by (simp_all add: sample_db_def pancakes_def)

text \<open>
  Claim C8. Removing a favourite or a cart entry for a key that no recipe has
  answers 400, where adding for the same key answers 404: \<open>_delete_from\<close> never looks
  the recipe up.
\<close>

theorem remove_missing_recipe_status:
  "7 \<notin> set (map recipe_pk (Recipe_objects sample_db))
   \<and> http_status (fst (favorite (request_of DELETE (Authenticated bob)) 7 sample_db)) = 400
   \<and> http_status (fst (shopping_cart (request_of DELETE (Authenticated bob)) 7 sample_db)) = 400
   \<and> http_status (fst (favorite (request_of POST (Authenticated bob)) 7 sample_db)) = 404
   \<and> http_status (fst (shopping_cart (request_of POST (Authenticated bob)) 7 sample_db)) = 404"
  by (simp add: favorite_def shopping_cart_def relation_action_def request_of_def
      delete_from_def add_to_def get_object_or_404_def sample_objects sample_recipes)


subsection \<open>Subscriptions\<close>

lemma filter_eq_distinct:
  "distinct xs \<Longrightarrow> x \<in> set xs \<Longrightarrow> filter (\<lambda>y. y = x) xs = [x]"
proof (induction xs)
  case Nil
  then show ?case by simp
next
  case (Cons a xs)
  have none: "x \<notin> set xs \<Longrightarrow> filter (\<lambda>y. y = x) xs = []"
    by (induction xs) auto
  show ?case
  proof (cases "a = x")
    case True
    then show ?thesis using Cons.prems none by simp
  next
    case False
    then show ?thesis using Cons by simp
  qed
qed

lemma subscribe_self:
  assumes "request_user req = Authenticated u"
    and "user_pk u \<in> set (map user_pk (User_objects d))"
    and "request_method req = POST"
  shows "subscribe req (user_pk u) d = (Inl (ValidationError (Msgs [msg_subscribe_self])), d)"
proof -
  obtain a where "get_object_or_404 user_pk (User_objects d) (user_pk u) = Inr a"
    and "user_pk a = user_pk u"
    using get_object_or_404_found [OF assms(2)] by blast
  then show ?thesis using assms(1,3) by (simp add: subscribe_def)
qed

lemma subscribe_existing:
  assumes "request_user req = Authenticated u"
    and "i \<in> set (map user_pk (User_objects d))"
    and "request_method req = POST"
    and "(user_pk u, i) \<in> set (Subscribe_objects d)"
  shows "\<exists>m. subscribe req i d = (Inl (ValidationError (Msgs [m])), d)"
proof -
  obtain a where "get_object_or_404 user_pk (User_objects d) i = Inr a" and "user_pk a = i"
    using get_object_or_404_found [OF assms(2)] by blast
  then show ?thesis using assms(1,3,4) by (simp add: subscribe_def)
qed

lemma unsubscribe_absent:
  assumes "request_user req = Authenticated u"
    and "i \<in> set (map user_pk (User_objects d))"
    and "request_method req = DELETE"
    and "(user_pk u, i) \<notin> set (Subscribe_objects d)"
  shows "subscribe req i d = (Inl (ValidationError (Msgs [msg_not_subscribed])), d)"
proof -
  obtain a where "get_object_or_404 user_pk (User_objects d) i = Inr a" and "user_pk a = i"
    using get_object_or_404_found [OF assms(2)] by blast
  then show ?thesis using assms(1,3,4) by (simp add: subscribe_def)
qed

lemma subscribe_new:
  assumes "request_user req = Authenticated u"
    and "i \<in> set (map user_pk (User_objects d))"
    and "request_method req = POST"
    and "(user_pk u, i) \<notin> set (Subscribe_objects d)"
    and "i \<noteq> user_pk u"
  shows "\<exists>a. a \<in> set (User_objects d) \<and> user_pk a = i
           \<and> subscribe req i d =
           (Inr \<lparr>status = 201, content = UserSerializer_data a\<rparr>,
            d\<lparr>Subscribe_objects := Subscribe_objects d @ [(user_pk u, i)]\<rparr>)"
proof -
  obtain a where "get_object_or_404 user_pk (User_objects d) i = Inr a" and "user_pk a = i"
    and "a \<in> set (User_objects d)"
    using get_object_or_404_found [OF assms(2)] by blast
  then show ?thesis
    using assms(1,3,4,5)
    by (auto simp: subscribe_def Let_def)
qed

lemma subscribe_created:
  assumes "request_user req = Authenticated u"
    and "request_method req = POST"
    and "subscribe req i d = (Inr r, d')"
  shows "status r = 201 \<and> i \<noteq> user_pk u \<and> (user_pk u, i) \<notin> set (Subscribe_objects d)
         \<and> Subscribe_objects d' = Subscribe_objects d @ [(user_pk u, i)]"
proof (cases "get_object_or_404 user_pk (User_objects d) i")
  case (Inl e)
  then show ?thesis using assms by (simp add: subscribe_def)
next
  case (Inr a)
  then have "user_pk a = i" using get_object_or_404_Inr by fastforce
  then show ?thesis
    using assms Inr
    by (auto simp: subscribe_def Let_def split: if_splits sum.splits)
qed

lemma unsubscribe_present:
  assumes "request_user req = Authenticated u"
    and "i \<in> set (map user_pk (User_objects d))"
    and "request_method req = DELETE"
    and "(user_pk u, i) \<in> set (Subscribe_objects d)"
    and "distinct (Subscribe_objects d)"
  shows "subscribe req i d =
           (Inr \<lparr>status = 204, content = Message msg_unsubscribed\<rparr>,
            d\<lparr>Subscribe_objects := remove1 (user_pk u, i) (Subscribe_objects d)\<rparr>)
         \<and> (user_pk u, i) \<notin> set (remove1 (user_pk u, i) (Subscribe_objects d))"
proof -
  obtain a where "get_object_or_404 user_pk (User_objects d) i = Inr a" and "user_pk a = i"
    using get_object_or_404_found [OF assms(2)] by blast
  then show ?thesis
    using assms(1,3,4,5) filter_eq_distinct [OF assms(5,4)]
    by (simp add: subscribe_def)
qed

text \<open>
  Claim C7. For an authenticated user \<open>u\<close> whose row is stored: subscribing to
  oneself raises a \<open>ValidationError\<close> (status 400) whatever else is stored;
  subscribing to an author one already follows raises a \<open>ValidationError\<close>; in both
  cases the store is what it was. Unsubscribing from an author one does not follow
  raises a \<open>ValidationError\<close> and changes nothing. A subscribe that returns a response
  returns 201 and has appended exactly the row \<open>(u, author)\<close>, and such a response,
  rendered by the \<open>UserSerializer\<close> that the view set chooses for the action, is
  returned for every other author not yet followed, whatever the query string; an
  unsubscribe of a followed author returns 204 and the row is gone.
\<close>

theorem subscribe_toggle:
  assumes "request_user req = Authenticated u"
    and "user_pk u \<in> set (map user_pk (User_objects d))"
    and "i \<in> set (map user_pk (User_objects d))"
    and "distinct (Subscribe_objects d)"
  shows
    "(request_method req = POST \<longrightarrow>
        (i = user_pk u \<longrightarrow>
           subscribe req i d = (Inl (ValidationError (Msgs [msg_subscribe_self])), d))
        \<and> ((user_pk u, i) \<in> set (Subscribe_objects d) \<longrightarrow>
           (\<exists>m. subscribe req i d = (Inl (ValidationError (Msgs [m])), d)
                \<and> status_code (ValidationError (Msgs [m])) = 400))
        \<and> (\<forall>r d'. subscribe req i d = (Inr r, d') \<longrightarrow>
             status r = 201 \<and> i \<noteq> user_pk u
             \<and> (user_pk u, i) \<notin> set (Subscribe_objects d)
             \<and> Subscribe_objects d' = Subscribe_objects d @ [(user_pk u, i)])
        \<and> (i \<noteq> user_pk u \<and> (user_pk u, i) \<notin> set (Subscribe_objects d) \<longrightarrow>
             (\<exists>a. a \<in> set (User_objects d) \<and> user_pk a = i
                \<and> subscribe req i d =
                (Inr \<lparr>status = 201, content = UserSerializer_data a\<rparr>,
                 d\<lparr>Subscribe_objects := Subscribe_objects d @ [(user_pk u, i)]\<rparr>))))
     \<and> get_serializer_class Action_subscribe = UserSerializer
     \<and> (request_method req = DELETE \<longrightarrow>
        ((user_pk u, i) \<notin> set (Subscribe_objects d) \<longrightarrow>
           subscribe req i d = (Inl (ValidationError (Msgs [msg_not_subscribed])), d))
        \<and> ((user_pk u, i) \<in> set (Subscribe_objects d) \<longrightarrow>
           subscribe req i d =
             (Inr \<lparr>status = 204, content = Message msg_unsubscribed\<rparr>,
              d\<lparr>Subscribe_objects := remove1 (user_pk u, i) (Subscribe_objects d)\<rparr>)
           \<and> (user_pk u, i) \<notin> set (remove1 (user_pk u, i) (Subscribe_objects d))))"
proof -
  have a: "request_method req = POST \<Longrightarrow> i = user_pk u \<Longrightarrow>
      subscribe req i d = (Inl (ValidationError (Msgs [msg_subscribe_self])), d)"
    using subscribe_self [OF assms(1,2)] by simp
  have b: "request_method req = POST \<Longrightarrow> (user_pk u, i) \<in> set (Subscribe_objects d) \<Longrightarrow>
      \<exists>m. subscribe req i d = (Inl (ValidationError (Msgs [m])), d)
           \<and> status_code (ValidationError (Msgs [m])) = 400"
    using subscribe_existing [OF assms(1,3)] by simp
  have c: "request_method req = POST \<Longrightarrow> subscribe req i d = (Inr r, d') \<Longrightarrow>
      status r = 201 \<and> i \<noteq> user_pk u
      \<and> (user_pk u, i) \<notin> set (Subscribe_objects d)
      \<and> Subscribe_objects d' = Subscribe_objects d @ [(user_pk u, i)]" for r d'
    using subscribe_created [OF assms(1)] by blast
  have e: "request_method req = POST \<Longrightarrow>
      i \<noteq> user_pk u \<and> (user_pk u, i) \<notin> set (Subscribe_objects d) \<Longrightarrow>
      \<exists>a. a \<in> set (User_objects d) \<and> user_pk a = i
        \<and> subscribe req i d =
        (Inr \<lparr>status = 201, content = UserSerializer_data a\<rparr>,
         d\<lparr>Subscribe_objects := Subscribe_objects d @ [(user_pk u, i)]\<rparr>)"
    using subscribe_new [OF assms(1,3)] by blast
  have s: "get_serializer_class Action_subscribe = UserSerializer"
    by (simp add: get_serializer_class_def)
  have f: "request_method req = DELETE \<Longrightarrow> (user_pk u, i) \<notin> set (Subscribe_objects d) \<Longrightarrow>
      subscribe req i d = (Inl (ValidationError (Msgs [msg_not_subscribed])), d)"
    using unsubscribe_absent [OF assms(1,3)] by blast
  have g: "request_method req = DELETE \<Longrightarrow> (user_pk u, i) \<in> set (Subscribe_objects d) \<Longrightarrow>
      subscribe req i d =
        (Inr \<lparr>status = 204, content = Message msg_unsubscribed\<rparr>,
         d\<lparr>Subscribe_objects := remove1 (user_pk u, i) (Subscribe_objects d)\<rparr>)
      \<and> (user_pk u, i) \<notin> set (remove1 (user_pk u, i) (Subscribe_objects d))"
    using unsubscribe_present [OF assms(1,3) _ _ assms(4)] by blast
  show ?thesis
    using a b c e f g s by blast
qed

lemma sample_subscribe:
  "Subscribe_objects sample_db = [(2, 1)]" "map user_pk (User_objects sample_db) = [1, 2, 3]"
  by (simp_all add: sample_db_def alice_def bob_def carol_def)

theorem subscribe_toggle_witness:
  "subscribe (request_of POST (Authenticated bob)) 2 sample_db
     = (Inl (ValidationError (Msgs [msg_subscribe_self])), sample_db)
   \<and> (\<exists>m. subscribe (request_of POST (Authenticated bob)) 1 sample_db
          = (Inl (ValidationError (Msgs [m])), sample_db))
   \<and> subscribe (request_of DELETE (Authenticated alice)) 2 sample_db
     = (Inl (ValidationError (Msgs [msg_not_subscribed])), sample_db)
   \<and> (\<exists>c. subscribe (request_of POST (Authenticated alice)) 2 sample_db
          = (Inr \<lparr>status = 201, content = c\<rparr>,
             sample_db\<lparr>Subscribe_objects := [(2, 1), (1, 2)]\<rparr>))
   \<and> (\<exists>c. subscribe
          \<lparr>request_method = POST, request_user = Authenticated alice,
             recipes_limit = Some ''abc''\<rparr> 2 sample_db
          = (Inr \<lparr>status = 201, content = c\<rparr>,
             sample_db\<lparr>Subscribe_objects := [(2, 1), (1, 2)]\<rparr>))
   \<and> subscribe (request_of DELETE (Authenticated bob)) 1 sample_db
     = (Inr \<lparr>status = 204, content = Message msg_unsubscribed\<rparr>,
        sample_db\<lparr>Subscribe_objects := []\<rparr>)"
proof -
  have a: "subscribe (request_of POST (Authenticated bob)) 2 sample_db
     = (Inl (ValidationError (Msgs [msg_subscribe_self])), sample_db)"
    using subscribe_toggle [where req = "request_of POST (Authenticated bob)" and u = bob
        and d = sample_db and i = 2]
    by (simp add: request_of_def sample_subscribe sample_objects)
  have b: "\<exists>m. subscribe (request_of POST (Authenticated bob)) 1 sample_db
          = (Inl (ValidationError (Msgs [m])), sample_db)"
    using subscribe_toggle [where req = "request_of POST (Authenticated bob)" and u = bob
        and d = sample_db and i = 1]
    by (simp add: request_of_def sample_subscribe sample_objects)
  have c: "subscribe (request_of DELETE (Authenticated alice)) 2 sample_db
     = (Inl (ValidationError (Msgs [msg_not_subscribed])), sample_db)"
    using subscribe_toggle [where req = "request_of DELETE (Authenticated alice)" and u = alice
        and d = sample_db and i = 2]
    by (simp add: request_of_def sample_subscribe sample_objects)
  have e: "\<exists>c. subscribe (request_of POST (Authenticated alice)) 2 sample_db
          = (Inr \<lparr>status = 201, content = c\<rparr>,
             sample_db\<lparr>Subscribe_objects := [(2, 1), (1, 2)]\<rparr>)"
    using subscribe_toggle [where req = "request_of POST (Authenticated alice)" and u = alice
        and d = sample_db and i = 2]
    by (auto simp: request_of_def sample_subscribe sample_objects)
  have q: "\<exists>c. subscribe
          \<lparr>request_method = POST, request_user = Authenticated alice,
             recipes_limit = Some ''abc''\<rparr> 2 sample_db
          = (Inr \<lparr>status = 201, content = c\<rparr>,
             sample_db\<lparr>Subscribe_objects := [(2, 1), (1, 2)]\<rparr>)"
    using subscribe_toggle [where req = "\<lparr>request_method = POST,
        request_user = Authenticated alice, recipes_limit = Some ''abc''\<rparr>" and u = alice
        and d = sample_db and i = 2]
    by (auto simp: sample_subscribe sample_objects)
  have f: "subscribe (request_of DELETE (Authenticated bob)) 1 sample_db
     = (Inr \<lparr>status = 204, content = Message msg_unsubscribed\<rparr>,
        sample_db\<lparr>Subscribe_objects := []\<rparr>)"
    using subscribe_toggle [where req = "request_of DELETE (Authenticated bob)" and u = bob
        and d = sample_db and i = 1]
    by (simp add: request_of_def sample_subscribe sample_objects)
  show ?thesis using a b c e q f by blast
qed

subsection \<open>Permissions of the recipe routes\<close>

lemma safe_method_cases:
  "request_method req \<in> set SAFE_METHODS \<longleftrightarrow>
   request_method req = GET \<or> request_method req = HEAD \<or> request_method req = OPTIONS"
  by (auto simp: SAFE_METHODS_def)

lemma safe_has_permission:
  "request_method req \<in> set SAFE_METHODS \<Longrightarrow>
   has_permission req \<and> has_object_permission req obj"
  by (simp add: has_permission_def has_object_permission_def
      IsAuthorOrReadOnly_has_permission_def IsAdminOrReadOnly_has_permission_def
      IsAdminOrReadOnly_has_object_permission_def)

lemma safe_recipes_route:
  assumes "request_method req \<in> set SAFE_METHODS"
  shows "\<exists>c. recipes_route req data d = (Inr \<lparr>status = 200, content = c\<rparr>, d)"
  using assms safe_has_permission [OF assms]
  by (auto simp: safe_method_cases recipes_route_def check_permissions_def
      RecipeViewSet_list_def)

lemma safe_recipe_route:
  assumes "request_method req \<in> set SAFE_METHODS"
    and "get_object_or_404 recipe_pk (Recipe_objects d) i = Inr obj"
  shows "\<exists>c. recipe_route req i data d = (Inr \<lparr>status = 200, content = c\<rparr>, d)"
  using assms safe_has_permission [OF assms(1)]
  by (auto simp: safe_method_cases recipe_route_def check_permissions_def
      RecipeViewSet_retrieve_def get_object_def)

lemma anonymous_write_denied:
  assumes "request_method req \<notin> set SAFE_METHODS" and "request_user req = AnonymousUser"
  shows "check_permissions req = Inl NotAuthenticated"
  using assms
  by (simp add: check_permissions_def has_permission_def permission_denied_def
      IsAuthorOrReadOnly_has_permission_def IsAdminOrReadOnly_has_permission_def)

lemma stranger_object_denied:
  assumes "request_method req \<notin> set SAFE_METHODS"
    and "request_user req = Authenticated u" and "\<not> is_staff u"
    and "author obj \<noteq> user_pk u"
  shows "\<not> has_object_permission req obj \<and> permission_denied req = PermissionDenied
         \<and> check_permissions req = Inr ()"
  using assms
  by (simp add: has_object_permission_def permission_denied_def check_permissions_def
      has_permission_def IsAuthorOrReadOnly_has_permission_def
      IsAdminOrReadOnly_has_permission_def IsAuthorOrReadOnly_has_object_permission_def)

lemma stranger_write_denied:
  assumes "request_method req = PUT \<or> request_method req = PATCH \<or> request_method req = DELETE"
    and "request_user req = Authenticated u" and "\<not> is_staff u"
    and "get_object_or_404 recipe_pk (Recipe_objects d) i = Inr obj"
    and "author obj \<noteq> user_pk u"
  shows "recipe_route req i data d = (Inl PermissionDenied, d)"
proof -
  have unsafe: "request_method req \<notin> set SAFE_METHODS"
    using assms(1) by (auto simp: SAFE_METHODS_def)
  have g: "get_object req i d = Inl PermissionDenied"
    using stranger_object_denied [OF unsafe assms(2,3,5)] assms(4)
    by (simp add: get_object_def)
  have c: "check_permissions req = Inr ()"
    using stranger_object_denied [OF unsafe assms(2,3,5)] by simp
  show ?thesis
    using assms(1) g c
    by (auto simp: recipe_route_def RecipeViewSet_update_def RecipeViewSet_destroy_def)
qed

text \<open>
  Claim C3. On the recipe routes, a request with a safe method (\<open>GET\<close>, \<open>HEAD\<close>,
  \<open>OPTIONS\<close>) is granted whoever sends it, for the collection and for every stored
  recipe, and answers 200. A request with any other method and no authenticated
  principal is answered with \<open>NotAuthenticated\<close> (401) on both routes. A \<open>PUT\<close>,
  \<open>PATCH\<close> or \<open>DELETE\<close> on a stored recipe by an authenticated user who is neither
  staff nor the recipe's author is answered with \<open>PermissionDenied\<close> (403). In the
  two refused cases nothing stored changes.
\<close>

theorem recipe_permissions:
  "(request_method req \<in> set SAFE_METHODS \<longrightarrow>
      has_permission req \<and> has_object_permission req obj
      \<and> (\<exists>c. recipes_route req data d = (Inr \<lparr>status = 200, content = c\<rparr>, d))
      \<and> (get_object_or_404 recipe_pk (Recipe_objects d) i = Inr obj \<longrightarrow>
           (\<exists>c. recipe_route req i data d = (Inr \<lparr>status = 200, content = c\<rparr>, d))))
   \<and> (request_method req \<notin> set SAFE_METHODS \<and> request_user req = AnonymousUser \<longrightarrow>
      recipes_route req data d = (Inl NotAuthenticated, d)
      \<and> recipe_route req i data d = (Inl NotAuthenticated, d)
      \<and> status_code NotAuthenticated = 401)
   \<and> ((request_method req = PUT \<or> request_method req = PATCH \<or> request_method req = DELETE)
       \<and> request_user req = Authenticated u \<and> \<not> is_staff u
       \<and> get_object_or_404 recipe_pk (Recipe_objects d) i = Inr obj
       \<and> author obj \<noteq> user_pk u \<longrightarrow>
      recipe_route req i data d = (Inl PermissionDenied, d)
      \<and> status_code PermissionDenied = 403)"
proof -
  have a: "request_method req \<in> set SAFE_METHODS \<Longrightarrow>
      has_permission req \<and> has_object_permission req obj
      \<and> (\<exists>c. recipes_route req data d = (Inr \<lparr>status = 200, content = c\<rparr>, d))
      \<and> (get_object_or_404 recipe_pk (Recipe_objects d) i = Inr obj \<longrightarrow>
           (\<exists>c. recipe_route req i data d = (Inr \<lparr>status = 200, content = c\<rparr>, d)))"
    using safe_has_permission safe_recipes_route safe_recipe_route by blast
  have b: "request_method req \<notin> set SAFE_METHODS \<and> request_user req = AnonymousUser \<Longrightarrow>
      recipes_route req data d = (Inl NotAuthenticated, d)
      \<and> recipe_route req i data d = (Inl NotAuthenticated, d)
      \<and> status_code NotAuthenticated = 401"
    using anonymous_write_denied [of req]
    by (simp add: recipes_route_def recipe_route_def)
  have c: "(request_method req = PUT \<or> request_method req = PATCH \<or> request_method req = DELETE)
       \<and> request_user req = Authenticated u \<and> \<not> is_staff u
       \<and> get_object_or_404 recipe_pk (Recipe_objects d) i = Inr obj
       \<and> author obj \<noteq> user_pk u \<Longrightarrow>
      recipe_route req i data d = (Inl PermissionDenied, d)
      \<and> status_code PermissionDenied = 403"
    using stranger_write_denied [of req u d i obj data] by simp
  show ?thesis
    using a b c by blast
qed

lemma sample_get_pancakes:
  "get_object_or_404 recipe_pk (Recipe_objects sample_db) 1 = Inr pancakes"
  "is_staff bob = False" "author pancakes \<noteq> user_pk bob"
  by (simp_all add: get_object_or_404_def sample_recipes bob_def)

theorem recipe_permissions_witness:
  "(\<exists>c. recipe_route (request_of GET AnonymousUser) 1 new_amounts sample_db
          = (Inr \<lparr>status = 200, content = c\<rparr>, sample_db))
   \<and> recipes_route (request_of POST AnonymousUser) new_amounts sample_db
       = (Inl NotAuthenticated, sample_db)
   \<and> recipe_route (request_of DELETE AnonymousUser) 1 new_amounts sample_db
       = (Inl NotAuthenticated, sample_db)
   \<and> recipe_route (request_of PUT (Authenticated bob)) 1 new_amounts sample_db
       = (Inl PermissionDenied, sample_db)
   \<and> recipe_route (request_of DELETE (Authenticated bob)) 1 new_amounts sample_db
       = (Inl PermissionDenied, sample_db)"
proof -
  have a: "\<exists>c. recipe_route (request_of GET AnonymousUser) 1 new_amounts sample_db
          = (Inr \<lparr>status = 200, content = c\<rparr>, sample_db)"
    using recipe_permissions [where req = "request_of GET AnonymousUser" and d = sample_db
        and i = 1 and obj = pancakes and data = new_amounts]
    by (simp add: request_of_def SAFE_METHODS_def sample_get_pancakes)
  have b: "recipes_route (request_of POST AnonymousUser) new_amounts sample_db
       = (Inl NotAuthenticated, sample_db)"
    using recipe_permissions [where req = "request_of POST AnonymousUser" and d = sample_db
        and data = new_amounts]
    by (simp add: request_of_def SAFE_METHODS_def)
  have c: "recipe_route (request_of DELETE AnonymousUser) 1 new_amounts sample_db
       = (Inl NotAuthenticated, sample_db)"
    using recipe_permissions [where req = "request_of DELETE AnonymousUser" and d = sample_db
        and i = 1 and data = new_amounts]
    by (simp add: request_of_def SAFE_METHODS_def)
  have e: "recipe_route (request_of PUT (Authenticated bob)) 1 new_amounts sample_db
       = (Inl PermissionDenied, sample_db)"
    using recipe_permissions [where req = "request_of PUT (Authenticated bob)" and d = sample_db
        and i = 1 and obj = pancakes and data = new_amounts and u = bob]
    by (simp add: request_of_def sample_get_pancakes SAFE_METHODS_def)
  have f: "recipe_route (request_of DELETE (Authenticated bob)) 1 new_amounts sample_db
       = (Inl PermissionDenied, sample_db)"
    using recipe_permissions [where req = "request_of DELETE (Authenticated bob)" and d = sample_db
        and i = 1 and obj = pancakes and data = new_amounts and u = bob]
    by (simp add: request_of_def sample_get_pancakes SAFE_METHODS_def)
  show ?thesis using a b c e f by blast
qed

subsection \<open>Registration\<close>

lemma strip_plain:
  "strip ''dave!'' = ''dave!''" "strip ''Dave'' = ''Dave''" "strip ''Orlov'' = ''Orlov''"
  "strip ''dave#1@example.com'' = ''dave#1@example.com''" "strip ''secret4'' = ''secret4''"
  by (simp_all add: strip_def py_isspace_def)

lemma regex_search_prefix:
  "regex_search ''dave!''" "regex_search ''dave#1@example.com''"
  by (simp_all add: regex_search_def in_class_def is_word_char_def)

lemma outside_class:
  "list_ex (\<lambda>c. \<not> in_class c) ''dave!''" "list_ex (\<lambda>c. \<not> in_class c) ''dave#1@example.com''"
  by (simp_all add: in_class_def is_word_char_def)

lemma sample_usernames:
  "map username (User_objects sample_db) = [''alice'', ''bob'', ''carol'']"
  "map email (User_objects sample_db) = [''alice@example.com'', ''bob@example.com'', ''carol@example.com'']"
  "map user_pk (User_objects sample_db) = [1, 2, 3]"
  by (simp_all add: sample_db_def alice_def bob_def carol_def)

lemma dave_username_field:
  "char_field (username_validators sample_db) ''dave!'' = Inr ''dave!''"
  by (simp add: char_field_def strip_plain username_validators_def regex_search_prefix
      sample_usernames USERNAME_MAX_LENGTH_def)

lemma dave_email_field:
  "char_field (email_validators ev) ''dave#1@example.com'' =
     (if ev ''dave#1@example.com'' then Inr ''dave#1@example.com''
      else Inl (ValidationError (Msgs [msg_email_invalid])))"
  by (simp add: char_field_def strip_plain email_validators_def regex_search_prefix
      EMAIL_MAX_LENGTH_def)

lemma dave_names:
  "char_field (name_validators m) ''Dave'' = Inr ''Dave''"
  "char_field (name_validators m) ''Orlov'' = Inr ''Orlov''"
  "char_field (\<lambda>v. []) ''secret4'' = Inr ''secret4''"
  by (simp_all add: char_field_def strip_plain name_validators_def USERNAME_MAX_LENGTH_def)

lemma dave_validated:
  "UserSerializer_to_internal_value ev sample_db dave_data =
     (if ev ''dave#1@example.com'' then Inr dave_data
      else Inl (ValidationError (Fields [(''email'', Msgs [msg_email_invalid])])))"
  by (simp add: UserSerializer_to_internal_value_def dave_data_def run_field_def
      dave_username_field dave_email_field dave_names errors_of_def value_of_def)

text \<open>
  Claim C9. The username \<open>dave!\<close> and the email \<open>dave#1@example.com\<close> each contain a
  character outside the class of word characters and \<open>. @ + -\<close>, yet the
  validators of the \<open>username\<close> field accept the username, and the registration
  creates the user whenever the framework's own \<open>EmailValidator\<close> accepts the email
  (the only error possible is that validator's): the pattern \<open>^[\w.@+-]+\<close> has no
  anchor at its end, so it only asks for one character of the class at the start.
\<close>

theorem registration_accepts_forbidden_characters:
  "list_ex (\<lambda>c. \<not> in_class c) ''dave!''
   \<and> list_ex (\<lambda>c. \<not> in_class c) ''dave#1@example.com''
   \<and> char_field (username_validators sample_db) ''dave!'' = Inr ''dave!''
   \<and> UserViewSet_create ev dave_data sample_db =
       (if ev ''dave#1@example.com''
        then (Inr \<lparr>status = 201, content = UserCreated
                   \<lparr>user_pk = 4, username = ''dave!'', email = ''dave#1@example.com'',
                    first_name = ''Dave'', last_name = ''Orlov'', password = ''secret4'',
                    is_staff = False\<rparr>\<rparr>,
              sample_db\<lparr>User_objects := User_objects sample_db @
                   [\<lparr>user_pk = 4, username = ''dave!'', email = ''dave#1@example.com'',
                    first_name = ''Dave'', last_name = ''Orlov'', password = ''secret4'',
                    is_staff = False\<rparr>]\<rparr>)
        else (Inl (ValidationError (Fields [(''email'', Msgs [msg_email_invalid])])),
              sample_db))"
proof -
  have c: "create_user dave_data sample_db =
      (Inr \<lparr>user_pk = 4, username = ''dave!'', email = ''dave#1@example.com'',
                    first_name = ''Dave'', last_name = ''Orlov'', password = ''secret4'',
                    is_staff = False\<rparr>,
       sample_db\<lparr>User_objects := User_objects sample_db @
                   [\<lparr>user_pk = 4, username = ''dave!'', email = ''dave#1@example.com'',
                    first_name = ''Dave'', last_name = ''Orlov'', password = ''secret4'',
                    is_staff = False\<rparr>]\<rparr>)"
    by (simp add: create_user_def dave_data_def sample_usernames next_user_pk_def Let_def)
  have v: "UserViewSet_create ev dave_data sample_db =
       (if ev ''dave#1@example.com''
        then (Inr \<lparr>status = 201, content = UserCreated
                   \<lparr>user_pk = 4, username = ''dave!'', email = ''dave#1@example.com'',
                    first_name = ''Dave'', last_name = ''Orlov'', password = ''secret4'',
                    is_staff = False\<rparr>\<rparr>,
              sample_db\<lparr>User_objects := User_objects sample_db @
                   [\<lparr>user_pk = 4, username = ''dave!'', email = ''dave#1@example.com'',
                    first_name = ''Dave'', last_name = ''Orlov'', password = ''secret4'',
                    is_staff = False\<rparr>]\<rparr>)
        else (Inl (ValidationError (Fields [(''email'', Msgs [msg_email_invalid])])),
              sample_db))"
    by (simp add: UserViewSet_create_def dave_validated c)
  show ?thesis
    using outside_class dave_username_field v by blast
qed


subsection \<open>The recipes limit of a subscription\<close>


lemma split_on_nonempty: "split_on c s \<noteq> []"
  by (induction s) (auto split: list.splits)








lemma py_int_examples:
  "py_int '' 12 '' = Some 12" "py_int ''-7'' = Some (-7)" "py_int ''1_000'' = Some 1000"
  "py_int ''1__0'' = None" "py_int ''+'' = None" "py_int ''12a'' = None" "py_int ''_1'' = None"
  by (simp_all add: py_int_def strip_def py_isspace_def is_digit_def digit_value_def)


subsection \<open>The shopping list\<close>

lemma annotate_sum_keys: "map fst (annotate_sum rows) = remdups (map fst rows)"
  by (simp add: annotate_sum_def comp_def)

lemma annotate_sum_amount:
  "(k, a) \<in> set (annotate_sum rows) \<Longrightarrow>
   a = sum_list (map snd (filter (\<lambda>r. fst r = k) rows)) \<and> k \<in> fst ` set rows"
  by (auto simp: annotate_sum_def)

lemma annotate_sum_length: "length (annotate_sum rows) = card (fst ` set rows)"
proof -
  have "length (annotate_sum rows) = length (remdups (map fst rows))"
    by (simp add: annotate_sum_def)
  then show ?thesis by (simp add: length_remdups_card_conv)
qed

lemma carted_rows_set:
  "set (carted_rows u d) =
     {row \<in> set (IngredientInRecipe_objects d).
        (user_pk u, iir_recipe row) \<in> set (ShoppingCart_objects d)}"
  by (auto simp: carted_rows_def)

lemma carted_rows_distinct_cart:
  assumes "distinct (ShoppingCart_objects d)"
  shows "carted_rows u d =
     filter (\<lambda>row. (user_pk u, iir_recipe row) \<in> set (ShoppingCart_objects d))
       (IngredientInRecipe_objects d)"
proof -
  have f1: "x \<in> set (ShoppingCart_objects d) \<Longrightarrow>
      filter (\<lambda>c. c = x) (ShoppingCart_objects d) = [x]" for x
    using filter_eq_distinct [OF assms] by blast
  have f2: "x \<notin> set (ShoppingCart_objects d) \<Longrightarrow>
      filter (\<lambda>c. c = x) (ShoppingCart_objects d) = []" for x
    by (auto simp: filter_empty_conv)
  have "concat (map (\<lambda>row. map (\<lambda>c. row)
            (filter (\<lambda>c. c = (user_pk u, iir_recipe row)) (ShoppingCart_objects d))) rows)
        = filter (\<lambda>row. (user_pk u, iir_recipe row) \<in> set (ShoppingCart_objects d)) rows"
    for rows :: "ingredient_in_recipe list"
    by (induction rows) (simp_all add: f1 f2)
  then show ?thesis by (simp add: carted_rows_def)
qed

text \<open>
  Claim C2. For an authenticated user, \<open>download_shopping_cart\<close> answers 400 when no
  cart row belongs to the user. Otherwise it answers 200 with the text file whose
  body has one line for each element of \<open>shopping_ingredients\<close>, between the header
  and the footer. \<open>shopping_ingredients\<close> aggregates the ingredient rows of the
  recipes in the user's cart (each row once when cart rows are distinct): its keys
  (ingredient name, measurement unit) are pairwise different, they are exactly the
  keys of those rows, the amount of a key is the sum of the amounts of the rows with
  that key, and the number of lines is the number of different keys.
\<close>

theorem shopping_cart_download:
  assumes "request_user req = Authenticated u"
  shows
    "(filter (\<lambda>c. fst c = user_pk u) (ShoppingCart_objects d) = [] \<longrightarrow>
        download_shopping_cart t req d = Inr \<lparr>status = 400, content = Errors msg_cart_empty\<rparr>)
     \<and> (filter (\<lambda>c. fst c = user_pk u) (ShoppingCart_objects d) \<noteq> [] \<longrightarrow>
        download_shopping_cart t req d =
          Inr \<lparr>status = 200,
               content = Attachment (username u @ ''_shopping_list.txt'')
                 (''Spisok pokupok dlya: '' @ get_full_name u @ newline
                  @ ''Data: '' @ today_Ymd t @ newline @ newline
                  @ join newline (map shopping_line (shopping_ingredients u d))
                  @ newline @ newline @ ''Foodgram ('' @ today_Y t @ '')'')\<rparr>)
     \<and> shopping_ingredients u d = annotate_sum (values_rows d (carted_rows u d))
     \<and> set (carted_rows u d) =
          {row \<in> set (IngredientInRecipe_objects d).
             (user_pk u, iir_recipe row) \<in> set (ShoppingCart_objects d)}
     \<and> (distinct (ShoppingCart_objects d) \<longrightarrow>
          carted_rows u d =
            filter (\<lambda>row. (user_pk u, iir_recipe row) \<in> set (ShoppingCart_objects d))
              (IngredientInRecipe_objects d))
     \<and> distinct (map fst (shopping_ingredients u d))
     \<and> set (map fst (shopping_ingredients u d)) = fst ` set (values_rows d (carted_rows u d))
     \<and> (\<forall>k a. (k, a) \<in> set (shopping_ingredients u d) \<longrightarrow>
          a = sum_list (map snd (filter (\<lambda>r. fst r = k) (values_rows d (carted_rows u d)))))
     \<and> length (map shopping_line (shopping_ingredients u d))
          = card (fst ` set (values_rows d (carted_rows u d)))"
proof -
  have a: "filter (\<lambda>c. fst c = user_pk u) (ShoppingCart_objects d) = [] \<Longrightarrow>
        download_shopping_cart t req d = Inr \<lparr>status = 400, content = Errors msg_cart_empty\<rparr>"
    using assms by (simp add: download_shopping_cart_def)
  have b: "filter (\<lambda>c. fst c = user_pk u) (ShoppingCart_objects d) \<noteq> [] \<Longrightarrow>
        download_shopping_cart t req d =
          Inr \<lparr>status = 200,
               content = Attachment (username u @ ''_shopping_list.txt'')
                 (''Spisok pokupok dlya: '' @ get_full_name u @ newline
                  @ ''Data: '' @ today_Ymd t @ newline @ newline
                  @ join newline (map shopping_line (shopping_ingredients u d))
                  @ newline @ newline @ ''Foodgram ('' @ today_Y t @ '')'')\<rparr>"
    using assms by (simp add: download_shopping_cart_def shopping_list_def)
  have c: "shopping_ingredients u d = annotate_sum (values_rows d (carted_rows u d))"
    by (simp add: shopping_ingredients_def)
  have e: "distinct (map fst (shopping_ingredients u d))"
    by (simp add: c annotate_sum_keys)
  have f: "set (map fst (shopping_ingredients u d)) = fst ` set (values_rows d (carted_rows u d))"
    by (simp add: c annotate_sum_keys)
  have g: "(k, a) \<in> set (shopping_ingredients u d) \<Longrightarrow>
          a = sum_list (map snd (filter (\<lambda>r. fst r = k) (values_rows d (carted_rows u d))))"
    for k a
    using annotate_sum_amount [of k a] by (simp add: c)
  have h: "length (map shopping_line (shopping_ingredients u d))
          = card (fst ` set (values_rows d (carted_rows u d)))"
    by (simp add: c annotate_sum_length)
  show ?thesis
    using a b c e f g h carted_rows_set [of u d] carted_rows_distinct_cart [of d u]
    by blast
qed

lemma str_int_small: "str_int 5 = ''5''" "str_int 100 = ''100''" "str_int 2 = ''2''"
  by (simp_all add: str_int_def digit_char_def)


lemma two_recipes_fields:
  "ShoppingCart_objects two_recipes_db = [(2, 1), (2, 2)]"
  "IngredientInRecipe_objects two_recipes_db =
     [\<lparr>iir_recipe = 1, iir_ingredient = 1, amount = 2\<rparr>,
      \<lparr>iir_recipe = 1, iir_ingredient = 2, amount = 100\<rparr>,
      \<lparr>iir_recipe = 2, iir_ingredient = 1, amount = 3\<rparr>]"
  "Ingredient_objects two_recipes_db = [eggs, flour]"
  by (simp_all add: two_recipes_db_def sample_db_def)

lemma sample_fields:
  "IngredientInRecipe_objects sample_db =
     [\<lparr>iir_recipe = 1, iir_ingredient = 1, amount = 2\<rparr>,
      \<lparr>iir_recipe = 1, iir_ingredient = 2, amount = 100\<rparr>]"
  "Ingredient_objects sample_db = [eggs, flour]"
  by (simp_all add: sample_db_def)

lemma two_recipes_ingredients:
  "shopping_ingredients bob two_recipes_db = [((''flour'', ''g''), 100), ((''eggs'', ''pcs''), 5)]"
  by (simp add: shopping_ingredients_def carted_rows_def values_rows_def annotate_sum_def
      two_recipes_fields eggs_def flour_def sample_objects)

lemma sample_ingredients:
  "shopping_ingredients bob sample_db = [((''eggs'', ''pcs''), 2), ((''flour'', ''g''), 100)]"
  by (simp add: shopping_ingredients_def carted_rows_def values_rows_def annotate_sum_def
      sample_fields eggs_def flour_def sample_objects)

lemma bob_full_name: "get_full_name bob = ''Bob Petrov''" "username bob = ''bob''"
  by (simp_all add: get_full_name_def bob_def strip_def py_isspace_def)

theorem shopping_cart_download_witness:
  "download_shopping_cart first_of_march (request_of GET (Authenticated alice)) two_recipes_db
     = Inr \<lparr>status = 400, content = Errors msg_cart_empty\<rparr>
   \<and> download_shopping_cart first_of_march (request_of GET (Authenticated bob)) two_recipes_db
     = Inr \<lparr>status = 200,
            content = Attachment ''bob_shopping_list.txt''
              (''Spisok pokupok dlya: Bob Petrov'' @ newline @ ''Data: 2024-03-01'' @ newline
               @ newline @ ''- flour (g) - 100'' @ newline @ ''- eggs (pcs) - 5''
               @ newline @ newline @ ''Foodgram (2024)'')\<rparr>
   \<and> download_shopping_cart first_of_march (request_of GET (Authenticated bob)) sample_db
     = Inr \<lparr>status = 200,
            content = Attachment ''bob_shopping_list.txt''
              (''Spisok pokupok dlya: Bob Petrov'' @ newline @ ''Data: 2024-03-01'' @ newline
               @ newline @ ''- eggs (pcs) - 2'' @ newline @ ''- flour (g) - 100''
               @ newline @ newline @ ''Foodgram (2024)'')\<rparr>"
proof -
  have a: "download_shopping_cart first_of_march (request_of GET (Authenticated alice))
      two_recipes_db = Inr \<lparr>status = 400, content = Errors msg_cart_empty\<rparr>"
    using shopping_cart_download [where req = "request_of GET (Authenticated alice)"
        and u = alice and d = two_recipes_db and t = first_of_march]
    by (simp add: request_of_def two_recipes_fields sample_objects)
  have b: "download_shopping_cart first_of_march (request_of GET (Authenticated bob))
      two_recipes_db
     = Inr \<lparr>status = 200,
            content = Attachment ''bob_shopping_list.txt''
              (''Spisok pokupok dlya: Bob Petrov'' @ newline @ ''Data: 2024-03-01'' @ newline
               @ newline @ ''- flour (g) - 100'' @ newline @ ''- eggs (pcs) - 5''
               @ newline @ newline @ ''Foodgram (2024)'')\<rparr>"
    using shopping_cart_download [where req = "request_of GET (Authenticated bob)"
        and u = bob and d = two_recipes_db and t = first_of_march]
    by (simp add: request_of_def two_recipes_fields sample_objects two_recipes_ingredients
        bob_full_name first_of_march_def shopping_line_def str_int_def digit_char_def)
  have c: "download_shopping_cart first_of_march (request_of GET (Authenticated bob)) sample_db
     = Inr \<lparr>status = 200,
            content = Attachment ''bob_shopping_list.txt''
              (''Spisok pokupok dlya: Bob Petrov'' @ newline @ ''Data: 2024-03-01'' @ newline
               @ newline @ ''- eggs (pcs) - 2'' @ newline @ ''- flour (g) - 100''
               @ newline @ newline @ ''Foodgram (2024)'')\<rparr>"
    using shopping_cart_download [where req = "request_of GET (Authenticated bob)"
        and u = bob and d = sample_db and t = first_of_march]
    by (simp add: request_of_def sample_objects sample_ingredients
        bob_full_name first_of_march_def shopping_line_def str_int_def digit_char_def)
  show ?thesis using a b c by blast
qed


subsection \<open>Tags and ingredients of a write request\<close>

lemma validate_tags_loop_Inr:
  "validate_tags_loop ts acc = Inr u \<longleftrightarrow> distinct ts \<and> set ts \<inter> set acc = {}"
  by (induction ts arbitrary: acc) auto

lemma validate_tags_loop_Inl:
  "validate_tags_loop ts acc = Inl e \<Longrightarrow> e = ValidationError (Msgs [msg_tags_unique])"
  by (induction ts arbitrary: acc) (auto split: if_splits)

lemma validate_tags_bad:
  assumes "bad_tags ts"
  shows "\<exists>m. validate_tags ts = Inl (ValidationError (Msgs [m]))"
proof (cases "ts = []")
  case True
  then show ?thesis by (simp add: validate_tags_def)
next
  case False
  then have "\<not> distinct ts" using assms by (simp add: bad_tags_def)
  then have "validate_tags_loop ts [] \<noteq> Inr ()"
    using validate_tags_loop_Inr [of ts "[]" "()"] by simp
  then obtain e where "validate_tags_loop ts [] = Inl e"
    by (cases "validate_tags_loop ts []") auto
  then show ?thesis
    using False validate_tags_loop_Inl by (fastforce simp: validate_tags_def)
qed

lemma validate_ingredients_loop_Inr:
  "validate_ingredients_loop d v acc = Inr u \<Longrightarrow>
   distinct (map item_id v)
   \<and> (\<forall>i \<in> set v. 0 < item_amount i
         \<and> item_id i \<in> set (map ingredient_pk (Ingredient_objects d))
         \<and> item_id i \<notin> set (map ingredient_pk acc))"
proof (induction v arbitrary: acc)
  case Nil
  then show ?case by simp
next
  case (Cons item items)
  from Cons.prems obtain i where
    g: "get_object_or_404 ingredient_pk (Ingredient_objects d) (item_id item) = Inr i"
    by (cases "get_object_or_404 ingredient_pk (Ingredient_objects d) (item_id item)") auto
  then have k: "ingredient_pk i = item_id item" and m: "i \<in> set (Ingredient_objects d)"
    using get_object_or_404_Inr by fastforce+
  from Cons.prems g have
    n: "ingredient_pk i \<notin> set (map ingredient_pk acc)" and p: "0 < item_amount item"
    and r: "validate_ingredients_loop d items (acc @ [i]) = Inr u"
    by (auto split: if_splits)
  from Cons.IH [OF r] have
    ih: "distinct (map item_id items)"
      "\<forall>j \<in> set items. 0 < item_amount j
         \<and> item_id j \<in> set (map ingredient_pk (Ingredient_objects d))
         \<and> item_id j \<notin> set (map ingredient_pk (acc @ [i]))"
    by blast+
  have "item_id item \<notin> set (map item_id items)"
    using ih(2) k by auto
  moreover have "item_id item \<in> set (map ingredient_pk (Ingredient_objects d))"
    using k m by force
  ultimately show ?case
    using ih k n p by auto
qed

lemma validate_ingredients_loop_Inl:
  "validate_ingredients_loop d v acc = Inl e \<Longrightarrow>
   e = Http404 \<or> e = ValidationError (Msgs [msg_ingredient_repeated])
   \<or> e = ValidationError (Msgs [msg_amount_positive])"
proof (induction v arbitrary: acc)
  case Nil
  then show ?case by simp
next
  case (Cons item items)
  show ?case
  proof (cases "get_object_or_404 ingredient_pk (Ingredient_objects d) (item_id item)")
    case (Inl e')
    then show ?thesis using Cons.prems get_object_or_404_Inl by fastforce
  next
    case (Inr i)
    then show ?thesis using Cons by (auto split: if_splits)
  qed
qed

lemma validate_ingredients_loop_found:
  "\<forall>i \<in> set v. item_id i \<in> set (map ingredient_pk (Ingredient_objects d)) \<Longrightarrow>
   validate_ingredients_loop d v acc \<noteq> Inl Http404"
proof (induction v arbitrary: acc)
  case Nil
  then show ?case by simp
next
  case (Cons item items)
  then have "item_id item \<in> set (map ingredient_pk (Ingredient_objects d))" by simp
  then obtain i where
    "get_object_or_404 ingredient_pk (Ingredient_objects d) (item_id item) = Inr i"
    using get_object_or_404_found by blast
  then show ?case using Cons by simp
qed

lemma validate_ingredients_bad:
  assumes "bad_ingredients v"
  shows "\<exists>e. validate_ingredients d v = Inl e
           \<and> (e = Http404 \<or> (\<exists>m. e = ValidationError (Msgs [m])))"
proof (cases "v = []")
  case True
  then show ?thesis by (simp add: validate_ingredients_def)
next
  case False
  then have "\<not> distinct (map item_id v) \<or> (\<exists>i \<in> set v. item_amount i \<le> 0)"
    using assms by (auto simp: bad_ingredients_def list_ex_iff)
  then have "validate_ingredients_loop d v [] \<noteq> Inr ()"
    using validate_ingredients_loop_Inr [of d v "[]" "()"] by fastforce
  then obtain e where e: "validate_ingredients_loop d v [] = Inl e"
    by (cases "validate_ingredients_loop d v []") auto
  then show ?thesis
    using False validate_ingredients_loop_Inl [OF e] by (auto simp: validate_ingredients_def)
qed

lemma validate_ingredients_bad_found:
  assumes "bad_ingredients v"
    and "\<forall>i \<in> set v. item_id i \<in> set (map ingredient_pk (Ingredient_objects d))"
  shows "\<exists>m. validate_ingredients d v = Inl (ValidationError (Msgs [m]))"
proof -
  obtain e where e: "validate_ingredients d v = Inl e"
    and k: "e = Http404 \<or> (\<exists>m. e = ValidationError (Msgs [m]))"
    using validate_ingredients_bad [OF assms(1)] by blast
  have "e \<noteq> Http404"
    using e validate_ingredients_loop_found [OF assms(2), of "[]"]
    by (auto simp: validate_ingredients_def split: if_splits sum.splits)
  then show ?thesis using e k by auto
qed

lemma to_internal_value_bad_tags:
  assumes "d_tags data = Some ts" and "bad_tags ts"
  shows "to_internal_value partial d data \<noteq> Inr vd"
proof -
  have "\<exists>m. tags_field d ts = Inl (ValidationError m)"
  proof (cases "\<exists>t \<in> set ts. t \<notin> set (map tag_pk (Tag_objects d))")
    case True
    then show ?thesis by (simp add: tags_field_def)
  next
    case False
    then show ?thesis
      using validate_tags_bad [OF assms(2)] by (auto simp: tags_field_def)
  qed
  then obtain m where "tags_field d ts = Inl (ValidationError m)" by blast
  then have "run_field partial (d_tags data) (tags_field d) = Inr (Failed m)"
    using assms(1) by (simp add: run_field_def)
  then show ?thesis
    by (simp add: to_internal_value_def errors_of_def Let_def split: sum.splits)
qed

lemma to_internal_value_bad_ingredients:
  assumes "d_ingredients data = Some v" and "bad_ingredients v"
  shows "to_internal_value partial d data \<noteq> Inr vd"
proof -
  obtain e where e: "validate_ingredients d v = Inl e"
    and k: "e = Http404 \<or> (\<exists>m. e = ValidationError (Msgs [m]))"
    using validate_ingredients_bad [OF assms(2)] by blast
  show ?thesis
  proof (cases "e = Http404")
    case True
    then have "run_field partial (d_ingredients data) (validate_ingredients d) = Inl Http404"
      using assms(1) e by (simp add: run_field_def)
    then show ?thesis
      by (simp add: to_internal_value_def split: sum.splits)
  next
    case False
    then obtain m where "e = ValidationError (Msgs [m])" using k by blast
    then have "run_field partial (d_ingredients data) (validate_ingredients d)
        = Inr (Failed (Msgs [m]))"
      using assms(1) e by (simp add: run_field_def)
    then show ?thesis
      by (simp add: to_internal_value_def errors_of_def Let_def split: sum.splits)
  qed
qed


text \<open>
  Claim C5, as amended. An empty tag list and a duplicate tag id make
  \<open>validate_tags\<close> raise a \<open>ValidationError\<close>. An empty ingredient list, a duplicate
  ingredient id and an amount that is not positive make \<open>validate_ingredients\<close>
  raise: a \<open>ValidationError\<close> when every id of the list has an ingredient, and
  otherwise either a \<open>ValidationError\<close> or the \<open>Http404\<close> of the lookup that comes
  first in the loop. A create or update request that carries such tags or
  ingredients never passes validation: it ends in an error and nothing stored
  changes.
\<close>

theorem invalid_recipe_rejected:
  "(bad_tags ts \<longrightarrow> (\<exists>m. validate_tags ts = Inl (ValidationError (Msgs [m]))))
   \<and> (bad_ingredients v \<longrightarrow>
        (\<exists>e. validate_ingredients d v = Inl e
           \<and> (e = Http404 \<or> (\<exists>m. e = ValidationError (Msgs [m]))))
        \<and> ((\<forall>i \<in> set v. item_id i \<in> set (map ingredient_pk (Ingredient_objects d))) \<longrightarrow>
             (\<exists>m. validate_ingredients d v = Inl (ValidationError (Msgs [m])))))
   \<and> ((d_tags data = Some ts \<and> bad_tags ts)
        \<or> (d_ingredients data = Some v \<and> bad_ingredients v) \<longrightarrow>
        (\<forall>vd. to_internal_value partial d data \<noteq> Inr vd)
        \<and> (request_method req = POST \<longrightarrow> (\<exists>e. recipes_route req data d = (Inl e, d)))
        \<and> (request_method req = PUT \<or> request_method req = PATCH \<longrightarrow>
             (\<exists>e. recipe_route req i data d = (Inl e, d))))"
proof -
  have a: "bad_tags ts \<Longrightarrow> \<exists>m. validate_tags ts = Inl (ValidationError (Msgs [m]))"
    by (rule validate_tags_bad)
  have b: "bad_ingredients v \<Longrightarrow>
        \<exists>e. validate_ingredients d v = Inl e
           \<and> (e = Http404 \<or> (\<exists>m. e = ValidationError (Msgs [m])))"
    by (rule validate_ingredients_bad)
  have c: "bad_ingredients v \<Longrightarrow>
        \<forall>i \<in> set v. item_id i \<in> set (map ingredient_pk (Ingredient_objects d)) \<Longrightarrow>
        \<exists>m. validate_ingredients d v = Inl (ValidationError (Msgs [m]))"
    by (rule validate_ingredients_bad_found)
  have v: "(d_tags data = Some ts \<and> bad_tags ts)
        \<or> (d_ingredients data = Some v \<and> bad_ingredients v) \<Longrightarrow>
        \<forall>vd. to_internal_value p d data \<noteq> Inr vd" for p
    using to_internal_value_bad_tags to_internal_value_bad_ingredients by blast
  have r1: "(d_tags data = Some ts \<and> bad_tags ts)
        \<or> (d_ingredients data = Some v \<and> bad_ingredients v) \<Longrightarrow>
        request_method req = POST \<Longrightarrow> \<exists>e. recipes_route req data d = (Inl e, d)"
    using recipes_route_invalid v by blast
  have r2: "(d_tags data = Some ts \<and> bad_tags ts)
        \<or> (d_ingredients data = Some v \<and> bad_ingredients v) \<Longrightarrow>
        request_method req = PUT \<or> request_method req = PATCH \<Longrightarrow>
        \<exists>e. recipe_route req i data d = (Inl e, d)"
    using recipe_route_invalid v by blast
  show ?thesis
    using a b c v r1 r2 by blast
qed

lemma sample_bad:
  "bad_tags [1, 1]"
  "bad_ingredients [\<lparr>item_id = 1, item_amount = 1\<rparr>, \<lparr>item_id = 1, item_amount = 2\<rparr>]"
  "bad_ingredients [\<lparr>item_id = 2, item_amount = 0\<rparr>]"
  "d_tags tag_twice = Some [1, 1]"
  "d_ingredients eggs_twice
     = Some [\<lparr>item_id = 1, item_amount = 1\<rparr>, \<lparr>item_id = 1, item_amount = 2\<rparr>]"
  "map ingredient_pk (Ingredient_objects sample_db) = [1, 2]"
  by (simp_all add: bad_tags_def bad_ingredients_def tag_twice_def eggs_twice_def
      new_amounts_def sample_db_def eggs_def flour_def)

theorem invalid_recipe_rejected_witness:
  "(\<exists>m. validate_tags [1, 1] = Inl (ValidationError (Msgs [m])))
   \<and> (\<exists>m. validate_ingredients sample_db
            [\<lparr>item_id = 1, item_amount = 1\<rparr>, \<lparr>item_id = 1, item_amount = 2\<rparr>]
          = Inl (ValidationError (Msgs [m])))
   \<and> (\<exists>m. validate_ingredients sample_db [\<lparr>item_id = 2, item_amount = 0\<rparr>]
          = Inl (ValidationError (Msgs [m])))
   \<and> (\<exists>e. recipes_route (request_of POST (Authenticated alice)) eggs_twice sample_db
          = (Inl e, sample_db))
   \<and> (\<exists>e. recipe_route (request_of PUT (Authenticated alice)) 1 tag_twice sample_db
          = (Inl e, sample_db))"
proof -
  have a: "\<exists>m. validate_tags [1, 1] = Inl (ValidationError (Msgs [m]))"
    using invalid_recipe_rejected [where ts = "[1, 1]" and v = "[]" and d = sample_db
        and data = tag_twice and req = "request_of PUT (Authenticated alice)" and i = 1
        and partial = False]
      sample_bad(1)
    by blast
  have b: "\<exists>m. validate_ingredients sample_db
            [\<lparr>item_id = 1, item_amount = 1\<rparr>, \<lparr>item_id = 1, item_amount = 2\<rparr>]
          = Inl (ValidationError (Msgs [m]))"
    using invalid_recipe_rejected [where ts = "[1, 1]" and d = sample_db
        and v = "[\<lparr>item_id = 1, item_amount = 1\<rparr>, \<lparr>item_id = 1, item_amount = 2\<rparr>]"
        and data = eggs_twice and req = "request_of POST (Authenticated alice)" and i = 1
        and partial = False]
      sample_bad(2)
    by (simp add: sample_bad(6))
  have c: "\<exists>m. validate_ingredients sample_db [\<lparr>item_id = 2, item_amount = 0\<rparr>]
          = Inl (ValidationError (Msgs [m]))"
    using invalid_recipe_rejected [where ts = "[1, 1]" and d = sample_db
        and v = "[\<lparr>item_id = 2, item_amount = 0\<rparr>]"
        and data = eggs_twice and req = "request_of POST (Authenticated alice)" and i = 1
        and partial = False]
      sample_bad(3)
    by (simp add: sample_bad(6))
  have e: "\<exists>e. recipes_route (request_of POST (Authenticated alice)) eggs_twice sample_db
          = (Inl e, sample_db)"
    using invalid_recipe_rejected [where ts = "[1, 1]" and d = sample_db
        and v = "[\<lparr>item_id = 1, item_amount = 1\<rparr>, \<lparr>item_id = 1, item_amount = 2\<rparr>]"
        and data = eggs_twice and req = "request_of POST (Authenticated alice)" and i = 1
        and partial = False]
      sample_bad(2) sample_bad(5)
    by (simp add: request_of_def)
  have f: "\<exists>e. recipe_route (request_of PUT (Authenticated alice)) 1 tag_twice sample_db
          = (Inl e, sample_db)"
    using invalid_recipe_rejected [where ts = "[1, 1]" and v = "[]" and d = sample_db
        and data = tag_twice and req = "request_of PUT (Authenticated alice)" and i = 1
        and partial = False]
      sample_bad(1) sample_bad(4)
    by (simp add: request_of_def)
  show ?thesis using a b c e f by blast
qed

lemma sample_tags: "map tag_pk (Tag_objects sample_db) = [1, 2]"
  by (simp add: sample_db_def)

lemma missing_twice_fields:
  "d_tags missing_twice = Some [2]"
  "d_ingredients missing_twice
     = Some [\<lparr>item_id = 99, item_amount = 1\<rparr>, \<lparr>item_id = 99, item_amount = 1\<rparr>]"
  by (simp_all add: missing_twice_def new_amounts_def)

lemma missing_twice_404:
  "validate_ingredients sample_db
     [\<lparr>item_id = 99, item_amount = 1\<rparr>, \<lparr>item_id = 99, item_amount = 1\<rparr>] = Inl Http404"
  using get_object_or_404_missing [of 99 ingredient_pk "Ingredient_objects sample_db"]
  by (simp add: validate_ingredients_def sample_bad(6))

lemma missing_twice_validation:
  "to_internal_value False sample_db missing_twice = Inl Http404"
proof -
  have t: "run_field False (d_tags missing_twice) (tags_field sample_db) = Inr (Valid [2])"
    by (simp add: run_field_def missing_twice_fields tags_field_def sample_tags
        validate_tags_def)
  have i: "run_field False (d_ingredients missing_twice) (validate_ingredients sample_db)
      = Inl Http404"
    by (simp add: run_field_def missing_twice_fields missing_twice_404)
  show ?thesis
    by (simp add: to_internal_value_def t i)
qed

text \<open>
  Claim C5 as it is written fails: a request that names twice an ingredient id
  which no ingredient has is not answered with a validation error.
  \<open>validate_ingredients\<close> looks every id up with \<open>get_object_or_404\<close> before it
  compares it with the ids seen, so the first occurrence already raises \<open>Http404\<close>,
  and the request is answered with 404.
\<close>

theorem duplicate_missing_ingredient_not_found:
  "d_ingredients missing_twice
     = Some [\<lparr>item_id = 99, item_amount = 1\<rparr>, \<lparr>item_id = 99, item_amount = 1\<rparr>]
   \<and> \<not> distinct (map item_id
         [\<lparr>item_id = 99, item_amount = 1\<rparr>, \<lparr>item_id = 99, item_amount = 1\<rparr>])
   \<and> validate_ingredients sample_db
        [\<lparr>item_id = 99, item_amount = 1\<rparr>, \<lparr>item_id = 99, item_amount = 1\<rparr>] = Inl Http404
   \<and> (\<nexists>m. validate_ingredients sample_db
        [\<lparr>item_id = 99, item_amount = 1\<rparr>, \<lparr>item_id = 99, item_amount = 1\<rparr>]
          = Inl (ValidationError m))
   \<and> recipes_route (request_of POST (Authenticated alice)) missing_twice sample_db
       = (Inl Http404, sample_db)
   \<and> status_code Http404 = 404"
proof -
  have p: "check_permissions (request_of POST (Authenticated alice)) = Inr ()"
    by (simp add: check_permissions_def has_permission_def request_of_def
        IsAuthorOrReadOnly_has_permission_def)
  have r: "recipes_route (request_of POST (Authenticated alice)) missing_twice sample_db
       = (Inl Http404, sample_db)"
    using p missing_twice_validation
    by (simp add: recipes_route_def RecipeViewSet_create_def request_of_def)
  show ?thesis
    using r missing_twice_404 missing_twice_fields(2) by simp
qed


subsection \<open>Update of a recipe\<close>

lemma ingredient_rows_Inr:
  "ingredient_rows d rid ings = Inr rows \<Longrightarrow>
   rows = map (\<lambda>i. \<lparr>iir_recipe = rid, iir_ingredient = item_id i, amount = item_amount i\<rparr>) ings"
proof (induction ings arbitrary: rows)
  case Nil
  then show ?case by simp
next
  case (Cons item items)
  then show ?case
    by (auto simp: find_Some_iff split: option.splits sum.splits)
qed

lemma ingredient_rows_same_catalogue:
  "Ingredient_objects d' = Ingredient_objects d \<Longrightarrow>
   ingredient_rows d' rid ings = ingredient_rows d rid ings"
  by (induction ings) (auto split: option.splits)

lemma ingredient_rows_exists:
  "\<forall>i \<in> set ings. item_id i \<in> set (map ingredient_pk (Ingredient_objects d)) \<Longrightarrow>
   \<exists>rows. ingredient_rows d rid ings = Inr rows"
proof (induction ings)
  case Nil
  then show ?case by simp
next
  case (Cons item items)
  then have "item_id item \<in> ingredient_pk ` set (Ingredient_objects d)" by simp
  then obtain x where "find (\<lambda>i. ingredient_pk i = item_id item) (Ingredient_objects d) = Some x"
    by (cases "find (\<lambda>i. ingredient_pk i = item_id item) (Ingredient_objects d)")
      (auto simp: find_None_iff)
  moreover obtain rows where "ingredient_rows d rid items = Inr rows"
    using Cons by auto
  ultimately show ?case by simp
qed

lemma set_attrs_pk: "recipe_pk (set_attrs r vd) = recipe_pk r"
  by (simp add: set_attrs_def)

lemma save_fields:
  "Recipe_tags (save r d) = Recipe_tags d"
  "IngredientInRecipe_objects (save r d) = IngredientInRecipe_objects d"
  "Ingredient_objects (save r d) = Ingredient_objects d"
  "IngredientInRecipe_unique (save r d) = IngredientInRecipe_unique d"
  by (simp_all add: save_def)

lemma tags_after_clear_set:
  "Recipe_tags (tags_set rid tags (tags_clear rid d)) =
     filter (\<lambda>row. fst row \<noteq> rid) (Recipe_tags d) @ map (Pair rid) (remdups tags)"
proof -
  have k: "filter (\<lambda>x. fst x \<noteq> rid \<and> (fst x = rid \<longrightarrow> snd x \<in> set tags)) xs
           = filter (\<lambda>row. fst row \<noteq> rid) xs" for xs :: "(pk \<times> pk) list"
    by (induction xs) auto
  have n: "filter (\<lambda>t. (rid, t) \<notin> set (filter (\<lambda>row. fst row \<noteq> rid) (Recipe_tags d))) tags = tags"
    by (auto simp: filter_id_conv)
  show ?thesis
    by (simp add: tags_set_def tags_clear_def Let_def k n)
qed

lemma clear_set_other_fields:
  "IngredientInRecipe_objects (tags_set rid tags (tags_clear rid d)) = IngredientInRecipe_objects d"
  "Ingredient_objects (tags_set rid tags (tags_clear rid d)) = Ingredient_objects d"
  "IngredientInRecipe_unique (tags_set rid tags (tags_clear rid d)) = IngredientInRecipe_unique d"
  by (simp_all add: tags_set_def tags_clear_def Let_def)

lemma ingredients_clear_fields:
  "Recipe_tags (ingredients_clear rid d) = Recipe_tags d"
  "Ingredient_objects (ingredients_clear rid d) = Ingredient_objects d"
  "IngredientInRecipe_unique (ingredients_clear rid d) = IngredientInRecipe_unique d"
  "IngredientInRecipe_objects (ingredients_clear rid d)
     = filter (\<lambda>row. iir_recipe row \<noteq> rid) (IngredientInRecipe_objects d)"
  by (simp_all add: ingredients_clear_def)

lemma create_ingredients_amounts_Inr:
  assumes "create_ingredients_amounts ings rid d = (Inr u, d')"
  shows "d' = d\<lparr>IngredientInRecipe_objects := IngredientInRecipe_objects d @
           map (\<lambda>i. \<lparr>iir_recipe = rid, iir_ingredient = item_id i, amount = item_amount i\<rparr>) ings\<rparr>"
proof (cases "ingredient_rows d rid ings")
  case (Inl e)
  then show ?thesis
    using assms
    by (simp add: create_ingredients_amounts_def atomic_def create_ingredients_amounts_body_def)
next
  case (Inr rows)
  then show ?thesis
    using assms ingredient_rows_Inr [OF Inr]
    by (auto simp: create_ingredients_amounts_def atomic_def
        create_ingredients_amounts_body_def bulk_create_def split: if_splits)
qed

lemma create_ingredients_amounts_Inl:
  "create_ingredients_amounts ings rid d = (Inl e, d') \<Longrightarrow> d' = d"
  by (auto simp: create_ingredients_amounts_def atomic_def split: prod.splits sum.splits)

lemma update_Inl: "update instance vd d = (Inl e, d') \<Longrightarrow> d' = d"
  by (auto simp: update_def atomic_def split: prod.splits sum.splits)


lemma update_Inr:
  assumes "update instance vd d = (Inr r, d')"
  shows "\<exists>tags ings. d_tags vd = Some tags \<and> d_ingredients vd = Some ings
     \<and> r = set_attrs instance vd
     \<and> Recipe_tags d' =
         filter (\<lambda>row. fst row \<noteq> recipe_pk instance) (Recipe_tags d)
         @ map (Pair (recipe_pk instance)) (remdups tags)
     \<and> IngredientInRecipe_objects d' =
         filter (\<lambda>row. iir_recipe row \<noteq> recipe_pk instance) (IngredientInRecipe_objects d)
         @ map (\<lambda>i. \<lparr>iir_recipe = recipe_pk instance, iir_ingredient = item_id i,
                      amount = item_amount i\<rparr>) ings"
proof -
  from assms obtain tags where tags: "d_tags vd = Some tags"
    by (cases "d_tags vd") (auto simp: update_def atomic_def update_body_def)
  from assms tags obtain ings where ings: "d_ingredients vd = Some ings"
    by (cases "d_ingredients vd") (auto simp: update_def atomic_def update_body_def)
  define inst where "inst = set_attrs instance vd"
  define rid where "rid = recipe_pk instance"
  define d4 where
    "d4 = ingredients_clear rid (tags_set rid tags (tags_clear rid (save inst d)))"
  have pk: "recipe_pk inst = rid"
    by (simp add: inst_def rid_def set_attrs_pk)
  obtain res d5 where c: "create_ingredients_amounts ings rid d4 = (res, d5)"
    by (cases "create_ingredients_amounts ings rid d4") auto
  have body: "update_body instance vd d =
      (case res of Inl e \<Rightarrow> (Inl e, d5) | Inr u \<Rightarrow> (Inr inst, save inst d5))"
    using c pk
    by (simp add: update_body_def tags ings Let_def inst_def [symmetric] d4_def [symmetric]
        split: sum.splits)
  from assms body obtain u where res: "res = Inr u" and r: "r = inst" and d': "d' = save inst d5"
    by (cases res) (auto simp: update_def atomic_def)
  have d5: "d5 = d4\<lparr>IngredientInRecipe_objects := IngredientInRecipe_objects d4 @
      map (\<lambda>i. \<lparr>iir_recipe = rid, iir_ingredient = item_id i, amount = item_amount i\<rparr>) ings\<rparr>"
    using c res create_ingredients_amounts_Inr by blast
  have t4: "Recipe_tags d4 =
      filter (\<lambda>row. fst row \<noteq> rid) (Recipe_tags d) @ map (Pair rid) (remdups tags)"
    by (simp add: d4_def ingredients_clear_fields tags_after_clear_set save_fields)
  have i4: "IngredientInRecipe_objects d4 =
      filter (\<lambda>row. iir_recipe row \<noteq> rid) (IngredientInRecipe_objects d)"
    by (simp add: d4_def ingredients_clear_fields clear_set_other_fields save_fields)
  show ?thesis
    using tags ings r
    by (simp add: d' d5 save_fields t4 i4 inst_def rid_def)
qed

lemma associations_replaced_intro:
  assumes "Recipe_tags d' =
         filter (\<lambda>row. fst row \<noteq> rid) (Recipe_tags d) @ map (Pair rid) (remdups tags)"
    and "IngredientInRecipe_objects d' =
         filter (\<lambda>row. iir_recipe row \<noteq> rid) (IngredientInRecipe_objects d)
         @ map (\<lambda>i. \<lparr>iir_recipe = rid, iir_ingredient = item_id i,
                      amount = item_amount i\<rparr>) ings"
  shows "associations_replaced rid tags ings d d'"
proof -
  have t1: "filter (\<lambda>row. fst row = rid) (map (Pair rid) ys) = map (Pair rid) ys"
    for ys :: "pk list"
    by (induction ys) auto
  have t2: "filter (\<lambda>row. fst row \<noteq> rid) (map (Pair rid) ys) = []" for ys :: "pk list"
    by (induction ys) auto
  have t3: "filter (\<lambda>row. fst row = rid) (filter (\<lambda>row. fst row \<noteq> rid) xs) = []"
    for xs :: "(pk \<times> pk) list"
    by (induction xs) auto
  have i1: "filter (\<lambda>row. iir_recipe row = rid)
        (map (\<lambda>i. \<lparr>iir_recipe = rid, iir_ingredient = item_id i, amount = item_amount i\<rparr>) ys)
      = map (\<lambda>i. \<lparr>iir_recipe = rid, iir_ingredient = item_id i, amount = item_amount i\<rparr>) ys"
    for ys :: "ingredient_item list"
    by (induction ys) auto
  have i2: "filter (\<lambda>row. iir_recipe row \<noteq> rid)
        (map (\<lambda>i. \<lparr>iir_recipe = rid, iir_ingredient = item_id i, amount = item_amount i\<rparr>) ys)
      = []"
    for ys :: "ingredient_item list"
    by (induction ys) auto
  have i3: "filter (\<lambda>row. iir_recipe row = rid) (filter (\<lambda>row. iir_recipe row \<noteq> rid) xs) = []"
    for xs :: "ingredient_in_recipe list"
    by (induction xs) auto
  have a: "tags_of rid d' = remdups tags"
    by (simp add: tags_of_def assms(1) t1 t3 comp_def)
  have b: "amounts_of rid d' = map (\<lambda>i. (item_id i, item_amount i)) ings"
    by (simp add: amounts_of_def assms(2) i1 i3 comp_def)
  have c: "filter (\<lambda>row. fst row \<noteq> rid) (Recipe_tags d')
          = filter (\<lambda>row. fst row \<noteq> rid) (Recipe_tags d)"
    by (simp add: assms(1) t2)
  have e: "filter (\<lambda>row. iir_recipe row \<noteq> rid) (IngredientInRecipe_objects d')
          = filter (\<lambda>row. iir_recipe row \<noteq> rid) (IngredientInRecipe_objects d)"
    by (simp add: assms(2) i2)
  show ?thesis
    using a b c e by (simp add: associations_replaced_def)
qed

lemma update_replaces:
  assumes "update instance vd d = (Inr r, d')"
  shows "\<exists>tags ings. d_tags vd = Some tags \<and> d_ingredients vd = Some ings
     \<and> associations_replaced (recipe_pk instance) tags ings d d'"
  using update_Inr [OF assms] associations_replaced_intro by blast


lemma update_succeeds:
  assumes "d_tags vd = Some tags" and "d_ingredients vd = Some ings"
    and "\<forall>x \<in> set ings. item_id x \<in> set (map ingredient_pk (Ingredient_objects d))"
    and "IngredientInRecipe_unique d \<longrightarrow>
           distinct (map item_id ings)
           \<and> distinct (map iir_key (filter (\<lambda>row. iir_recipe row \<noteq> recipe_pk instance)
                 (IngredientInRecipe_objects d)))"
  shows "\<exists>d'. update instance vd d = (Inr (set_attrs instance vd), d')"
proof -
  define inst where "inst = set_attrs instance vd"
  define rid where "rid = recipe_pk instance"
  define d4 where
    "d4 = ingredients_clear rid (tags_set rid tags (tags_clear rid (save inst d)))"
  define rows where
    "rows = map (\<lambda>i. \<lparr>iir_recipe = rid, iir_ingredient = item_id i, amount = item_amount i\<rparr>) ings"
  have pk: "recipe_pk inst = rid"
    by (simp add: inst_def rid_def set_attrs_pk)
  have cat: "Ingredient_objects d4 = Ingredient_objects d"
    by (simp add: d4_def ingredients_clear_fields clear_set_other_fields save_fields)
  have uq: "IngredientInRecipe_unique d4 = IngredientInRecipe_unique d"
    by (simp add: d4_def ingredients_clear_fields clear_set_other_fields save_fields)
  have i4: "IngredientInRecipe_objects d4 =
      filter (\<lambda>row. iir_recipe row \<noteq> rid) (IngredientInRecipe_objects d)"
    by (simp add: d4_def ingredients_clear_fields clear_set_other_fields save_fields)
  obtain rs where "ingredient_rows d rid ings = Inr rs"
    using ingredient_rows_exists [OF assms(3)] by blast
  then have rows: "ingredient_rows d4 rid ings = Inr rows"
    using ingredient_rows_Inr ingredient_rows_same_catalogue [OF cat]
    by (simp add: rows_def)
  have keys: "map iir_key rows = map (\<lambda>i. (rid, item_id i)) ings"
    by (simp add: rows_def iir_key_def comp_def)
  have dk: "distinct (map item_id ings) \<Longrightarrow> distinct (map (\<lambda>i. (rid, item_id i)) ings)"
    by (simp add: distinct_map inj_on_def)
  have apart: "set (map iir_key (filter (\<lambda>row. iir_recipe row \<noteq> rid) xs))
      \<inter> set (map (\<lambda>i. (rid, item_id i)) ings) = {}" for xs :: "ingredient_in_recipe list"
    by (auto simp: iir_key_def)
  have ok: "\<not> (IngredientInRecipe_unique d4
      \<and> \<not> distinct (map iir_key (IngredientInRecipe_objects d4 @ rows)))"
    using assms(4) dk apart
    by (auto simp: uq i4 keys rid_def)
  have c: "create_ingredients_amounts ings rid d4 =
      (Inr (), d4\<lparr>IngredientInRecipe_objects := IngredientInRecipe_objects d4 @ rows\<rparr>)"
    using ok rows
    by (auto simp: create_ingredients_amounts_def atomic_def
        create_ingredients_amounts_body_def bulk_create_def)
  have "update_body instance vd d =
      (Inr inst, save inst (d4\<lparr>IngredientInRecipe_objects :=
          IngredientInRecipe_objects d4 @ rows\<rparr>))"
    using c pk
    by (simp add: update_body_def assms(1,2) Let_def inst_def [symmetric] d4_def [symmetric])
  then show ?thesis
    by (simp add: update_def atomic_def inst_def)
qed

lemma run_field_value:
  assumes "run_field partial v f = Inr res" and "errors_of n res = []"
    and "\<And>x y. f x = Inr y \<Longrightarrow> y = x"
  shows "value_of res = v"
proof (cases v)
  case None
  then show ?thesis
    using assms(1,2) by (auto simp: run_field_def errors_of_def value_of_def split: if_splits)
next
  case (Some x)
  show ?thesis
  proof (cases "f x")
    case (Inl e)
    then show ?thesis
      using assms(1,2) Some
      by (cases e) (auto simp: run_field_def errors_of_def)
  next
    case (Inr y)
    then show ?thesis
      using assms(1) assms(3) [OF Inr] Some by (auto simp: run_field_def value_of_def)
  qed
qed

lemma tags_field_same: "tags_field d x = Inr y \<Longrightarrow> y = x"
  by (auto simp: tags_field_def validate_tags_def split: if_splits sum.splits)

lemma validate_ingredients_same: "validate_ingredients d x = Inr y \<Longrightarrow> y = x"
  by (auto simp: validate_ingredients_def split: if_splits sum.splits)

lemma to_internal_value_keeps:
  assumes "to_internal_value partial d data = Inr vd"
  shows "d_tags vd = d_tags data \<and> d_ingredients vd = d_ingredients data"
proof -
  obtain t where t: "run_field partial (d_tags data) (tags_field d) = Inr t"
    using assms
    by (cases "run_field partial (d_tags data) (tags_field d)")
      (auto simp: to_internal_value_def)
  obtain i where i: "run_field partial (d_ingredients data) (validate_ingredients d) = Inr i"
    using assms t
    by (cases "run_field partial (d_ingredients data) (validate_ingredients d)")
      (auto simp: to_internal_value_def)
  have e: "errors_of ''tags'' t = [] \<and> errors_of ''ingredients'' i = []
      \<and> d_tags vd = value_of t \<and> d_ingredients vd = value_of i"
    using assms t i
    by (auto simp: to_internal_value_def Let_def split: sum.splits if_splits)
  show ?thesis
    using e run_field_value [OF t _ tags_field_same]
      run_field_value [OF i _ validate_ingredients_same]
    by auto
qed

lemma recipe_route_update:
  assumes "request_method req = PUT \<or> request_method req = PATCH"
    and "recipe_route req i data d = (Inr resp, d')"
  shows "\<exists>obj vd r. recipe_pk obj = i
      \<and> to_internal_value (request_method req = PATCH) d data = Inr vd
      \<and> update obj vd d = (Inr r, d')"
proof -
  from assms obtain obj where g: "get_object req i d = Inr obj"
    by (cases "get_object req i d")
      (auto simp: recipe_route_def RecipeViewSet_update_def split: sum.splits)
  then have pk: "recipe_pk obj = i"
    using get_object_or_404_Inr [of recipe_pk "Recipe_objects d" i]
    by (auto simp: get_object_def split: sum.splits if_splits)
  from assms g obtain vd where
    v: "to_internal_value (request_method req = PATCH) d data = Inr vd"
    by (cases "to_internal_value (request_method req = PATCH) d data")
      (auto simp: recipe_route_def RecipeViewSet_update_def split: sum.splits)
  from assms g v obtain r where "update obj vd d = (Inr r, d')"
    by (cases "update obj vd d"; cases "fst (update obj vd d)")
      (auto simp: recipe_route_def RecipeViewSet_update_def split: sum.splits)
  then show ?thesis using pk v by blast
qed


lemma find_Some_mem: "find P xs = Some x \<Longrightarrow> x \<in> set xs \<and> P x"
  by (induction xs) (auto split: if_splits)

lemma ingredient_rows_missing:
  "\<exists>x \<in> set ings. item_id x \<notin> set (map ingredient_pk (Ingredient_objects d)) \<Longrightarrow>
   ingredient_rows d rid ings = Inl DoesNotExist"
proof (induction ings)
  case Nil
  then show ?case by simp
next
  case (Cons item items)
  show ?case
  proof (cases "find (\<lambda>i. ingredient_pk i = item_id item) (Ingredient_objects d)")
    case None
    then show ?thesis by simp
  next
    case (Some x)
    then have "x \<in> set (Ingredient_objects d) \<and> ingredient_pk x = item_id item"
      by (rule find_Some_mem)
    then have "item_id item \<in> set (map ingredient_pk (Ingredient_objects d))"
      by force
    then have "\<exists>x \<in> set items. item_id x \<notin> set (map ingredient_pk (Ingredient_objects d))"
      using Cons.prems by auto
    then show ?thesis using Cons.IH Some by simp
  qed
qed

lemma update_missing_ingredient:
  assumes "d_tags vd = Some tags" and "d_ingredients vd = Some ings"
    and "\<exists>x \<in> set ings. item_id x \<notin> set (map ingredient_pk (Ingredient_objects d))"
  shows "update instance vd d = (Inl DoesNotExist, d)"
proof -
  define inst where "inst = set_attrs instance vd"
  define d4 where
    "d4 = ingredients_clear (recipe_pk inst)
            (tags_set (recipe_pk inst) tags (tags_clear (recipe_pk inst) (save inst d)))"
  have cat: "Ingredient_objects d4 = Ingredient_objects d"
    by (simp add: d4_def ingredients_clear_fields clear_set_other_fields save_fields)
  have "ingredient_rows d4 (recipe_pk inst) ings = Inl DoesNotExist"
    using ingredient_rows_missing [OF assms(3)] ingredient_rows_same_catalogue [OF cat]
    by simp
  then have "create_ingredients_amounts ings (recipe_pk inst) d4 = (Inl DoesNotExist, d4)"
    by (simp add: create_ingredients_amounts_def atomic_def
        create_ingredients_amounts_body_def)
  then have "update_body instance vd d = (Inl DoesNotExist, d4)"
    by (simp add: update_body_def assms(1,2) Let_def inst_def [symmetric] d4_def [symmetric])
  then show ?thesis
    by (simp add: update_def atomic_def)
qed

text \<open>
  Claim C1. When \<open>update\<close> of the write serializer succeeds, the validated data
  carried tags and ingredients, and afterwards the tag rows of the recipe are exactly
  the supplied tags (one row each), its ingredient rows are exactly the supplied
  pairs of ingredient and amount, and the rows of all other recipes are untouched;
  the same holds for a \<open>PUT\<close> or \<open>PATCH\<close> on the recipe route that returns a
  response, with the tags and ingredients of the request. When \<open>update\<close> raises, the
  store is what it was before (the transaction is rolled back), as when an
  ingredient id has no row although the tags were already replaced. An update
  succeeds whenever all ingredient ids exist and the uniqueness that the schema may
  ask of (recipe, ingredient) is met.
\<close>

theorem update_replaces_associations:
  "(update inst vd d = (Inr r, d') \<longrightarrow>
      (\<exists>tags ings. d_tags vd = Some tags \<and> d_ingredients vd = Some ings
         \<and> associations_replaced (recipe_pk inst) tags ings d d'))
   \<and> (update inst vd d = (Inl e, d') \<longrightarrow> d' = d)
   \<and> ((request_method req = PUT \<or> request_method req = PATCH)
        \<and> recipe_route req i data d = (Inr resp, d') \<longrightarrow>
      (\<exists>tags ings. d_tags data = Some tags \<and> d_ingredients data = Some ings
         \<and> associations_replaced i tags ings d d'))
   \<and> (d_tags vd = Some ts \<and> d_ingredients vd = Some v
        \<and> (\<exists>x \<in> set v. item_id x \<notin> set (map ingredient_pk (Ingredient_objects d))) \<longrightarrow>
      update inst vd d = (Inl DoesNotExist, d))
   \<and> (d_tags vd = Some ts \<and> d_ingredients vd = Some v
        \<and> (\<forall>x \<in> set v. item_id x \<in> set (map ingredient_pk (Ingredient_objects d)))
        \<and> (IngredientInRecipe_unique d \<longrightarrow>
             distinct (map item_id v)
             \<and> distinct (map iir_key (filter (\<lambda>row. iir_recipe row \<noteq> recipe_pk inst)
                   (IngredientInRecipe_objects d)))) \<longrightarrow>
      (\<exists>d''. update inst vd d = (Inr (set_attrs inst vd), d'')))"
proof -
  have a: "update inst vd d = (Inr r, d') \<Longrightarrow>
      \<exists>tags ings. d_tags vd = Some tags \<and> d_ingredients vd = Some ings
         \<and> associations_replaced (recipe_pk inst) tags ings d d'"
    by (rule update_replaces)
  have b: "update inst vd d = (Inl e, d') \<Longrightarrow> d' = d"
    by (rule update_Inl)
  have c: "(request_method req = PUT \<or> request_method req = PATCH)
        \<and> recipe_route req i data d = (Inr resp, d') \<Longrightarrow>
      \<exists>tags ings. d_tags data = Some tags \<and> d_ingredients data = Some ings
         \<and> associations_replaced i tags ings d d'"
  proof -
    assume h: "(request_method req = PUT \<or> request_method req = PATCH)
        \<and> recipe_route req i data d = (Inr resp, d')"
    then obtain obj vd' r' where pk: "recipe_pk obj = i"
      and v: "to_internal_value (request_method req = PATCH) d data = Inr vd'"
      and u: "update obj vd' d = (Inr r', d')"
      using recipe_route_update [of req i data d resp d'] by blast
    show ?thesis
      using update_replaces [OF u] to_internal_value_keeps [OF v] pk by auto
  qed
  have f: "d_tags vd = Some ts \<and> d_ingredients vd = Some v
        \<and> (\<exists>x \<in> set v. item_id x \<notin> set (map ingredient_pk (Ingredient_objects d))) \<Longrightarrow>
      update inst vd d = (Inl DoesNotExist, d)"
    using update_missing_ingredient by blast
  have g: "d_tags vd = Some ts \<and> d_ingredients vd = Some v
        \<and> (\<forall>x \<in> set v. item_id x \<in> set (map ingredient_pk (Ingredient_objects d)))
        \<and> (IngredientInRecipe_unique d \<longrightarrow>
             distinct (map item_id v)
             \<and> distinct (map iir_key (filter (\<lambda>row. iir_recipe row \<noteq> recipe_pk inst)
                   (IngredientInRecipe_objects d)))) \<Longrightarrow>
      \<exists>d''. update inst vd d = (Inr (set_attrs inst vd), d'')"
    using update_succeeds [of vd ts v d inst] by blast
  show ?thesis
    using a b c f g by blast
qed

lemma new_amounts_fields:
  "d_tags new_amounts = Some [2]"
  "d_ingredients new_amounts = Some [\<lparr>item_id = 1, item_amount = 3\<rparr>]"
  by (simp_all add: new_amounts_def)

theorem update_replaces_associations_witness:
  "(\<exists>r d'. update pancakes new_amounts sample_db = (Inr r, d')
       \<and> set (tags_of 1 d') = {2} \<and> amounts_of 1 d' = [(1, 3)])
   \<and> update pancakes missing_twice sample_db = (Inl DoesNotExist, sample_db)"
proof -
  have pre: "IngredientInRecipe_unique sample_db \<longrightarrow>
      distinct (map item_id [\<lparr>item_id = 1, item_amount = 3\<rparr>])
      \<and> distinct (map iir_key (filter (\<lambda>row. iir_recipe row \<noteq> recipe_pk pancakes)
            (IngredientInRecipe_objects sample_db)))"
    by (simp add: sample_fields sample_recipes)
  have "\<exists>d''. update pancakes new_amounts sample_db
      = (Inr (set_attrs pancakes new_amounts), d'')"
    using update_replaces_associations [where inst = pancakes and vd = new_amounts
        and d = sample_db and ts = "[2]" and v = "[\<lparr>item_id = 1, item_amount = 3\<rparr>]"]
      pre new_amounts_fields
    by (simp add: sample_bad(6))
  then obtain d'' where
    u: "update pancakes new_amounts sample_db = (Inr (set_attrs pancakes new_amounts), d'')"
    by blast
  have "associations_replaced 1 [2] [\<lparr>item_id = 1, item_amount = 3\<rparr>] sample_db d''"
    using update_replaces_associations [where inst = pancakes and vd = new_amounts
        and d = sample_db and r = "set_attrs pancakes new_amounts" and d' = d''] u
    by (simp add: new_amounts_fields sample_recipes)
  then have a: "\<exists>r d'. update pancakes new_amounts sample_db = (Inr r, d')
       \<and> set (tags_of 1 d') = {2} \<and> amounts_of 1 d' = [(1, 3)]"
    using u by (auto simp: associations_replaced_def)
  have b: "update pancakes missing_twice sample_db = (Inl DoesNotExist, sample_db)"
    using update_replaces_associations [where inst = pancakes and vd = missing_twice
        and d = sample_db and ts = "[2]"
        and v = "[\<lparr>item_id = 99, item_amount = 1\<rparr>, \<lparr>item_id = 99, item_amount = 1\<rparr>]"]
      missing_twice_fields
    by (simp add: sample_bad(6))
  show ?thesis using a b by blast
qed


end
